theory Spec2Isabelle
  imports Complex_Main "HOL-Library.AList"
begin

section \<open>JavaScript values\<close>

text \<open>
  The values that flow through the authentication code are JSON values (request bodies,
  decoded token payloads, database rows) and \<open>undefined\<close> (an absent property).
  Numbers are the finite numbers of JSON, as rationals; \<open>-0\<close> is identified with \<open>0\<close>
  (both are falsy). Strings are lists of code units below 256. An object is the list of
  its own properties in insertion order; a lookup takes the first entry of a key.
\<close>

datatype jsval =
    JUndefined
  | JNull
  | JBool bool
  | JNum rat
  | JStr string
  | JArr "jsval list"
  | JObj "(string \<times> jsval) list"

text \<open>A thrown error object: its \<open>name\<close> and its \<open>message\<close>.\<close>

datatype js_error = JsError (err_name: string) (err_message: string)

text \<open>\<open>new Error(msg)\<close>\<close>

definition Error :: "string \<Rightarrow> js_error" where
  "Error msg = JsError ''Error'' msg"

text \<open>ToBoolean: \<open>undefined\<close>, \<open>null\<close>, \<open>false\<close>, \<open>0\<close> and \<open>''\<close> are falsy.\<close>

fun truthy :: "jsval \<Rightarrow> bool" where
  "truthy JUndefined = False"
| "truthy JNull = False"
| "truthy (JBool b) = b"
| "truthy (JNum n) = (n \<noteq> 0)"
| "truthy (JStr s) = (s \<noteq> [])"
| "truthy (JArr xs) = True"
| "truthy (JObj kvs) = True"

text \<open>\<open>a || b\<close>\<close>

definition js_or :: "jsval \<Rightarrow> jsval \<Rightarrow> jsval" where
  "js_or a b = (if truthy a then a else b)"

definition nullish :: "jsval \<Rightarrow> bool" where
  "nullish v = (v = JUndefined \<or> v = JNull)"

text \<open>
  \<open>v.k\<close> for a value that is neither \<open>null\<close> nor \<open>undefined\<close>: an own property of an
  object, \<open>undefined\<close> otherwise. None of the property names the code reads is a
  built-in property of strings, arrays or \<open>Object.prototype\<close>.
\<close>

fun own_prop :: "jsval \<Rightarrow> string \<Rightarrow> jsval" where
  "own_prop (JObj kvs) k = (case map_of kvs k of None \<Rightarrow> JUndefined | Some v \<Rightarrow> v)"
| "own_prop v k = JUndefined"

definition type_error :: "jsval \<Rightarrow> string \<Rightarrow> js_error" where
  "type_error v k = JsError ''TypeError''
     (''Cannot read properties of '' @ (if v = JNull then ''null'' else ''undefined'')
        @ '' (reading '' @ k @ '')'')"

text \<open>\<open>v.k\<close> in general: reading a property of \<open>null\<close> or \<open>undefined\<close> throws a TypeError.\<close>

definition get_prop :: "jsval \<Rightarrow> string \<Rightarrow> js_error + jsval" where
  "get_prop v k = (if nullish v then Inl (type_error v k) else Inr (own_prop v k))"

definition has_key :: "jsval \<Rightarrow> string \<Rightarrow> bool" where
  "has_key v k = (case v of JObj kvs \<Rightarrow> k \<in> set (map fst kvs) | _ \<Rightarrow> False)"

definition keys_of :: "jsval \<Rightarrow> string list" where
  "keys_of v = (case v of JObj kvs \<Rightarrow> map fst kvs | _ \<Rightarrow> [])"

text \<open>Decimal numerals, for the index keys of spread strings and arrays.\<close>

fun decimal :: "nat \<Rightarrow> string" where
  "decimal n =
     (if n < 10 then [char_of (48 + n)]
      else decimal (n div 10) @ [char_of (48 + n mod 10)])"

declare decimal.simps [simp del]

text \<open>
  The own enumerable properties copied by an object spread \<open>{ ...v }\<close>: those of an
  object, the indexed elements of an array or a string, none for any other value.
\<close>

fun spread :: "jsval \<Rightarrow> (string \<times> jsval) list" where
  "spread (JObj kvs) = kvs"
| "spread (JArr xs) = map (\<lambda>i. (decimal i, xs ! i)) [0..<length xs]"
| "spread (JStr s) = map (\<lambda>i. (decimal i, JStr [s ! i])) [0..<length s]"
| "spread v = []"

section \<open>Exceptions and asynchronous calls\<close>

text \<open>A synchronous computation that may throw: \<open>Inl\<close> is the thrown error.\<close>

definition bindE :: "js_error + 'a \<Rightarrow> ('a \<Rightarrow> js_error + 'b) \<Rightarrow> js_error + 'b" where
  "bindE m f = (case m of Inl e \<Rightarrow> Inl e | Inr x \<Rightarrow> f x)"

section \<open>Configuration and libraries\<close>

text \<open>
  The module \<open>config/auth\<close> is not among the sources; its values are parameters.
\<close>

record auth_config =
  accessSecret :: jsval
  accessExpiresIn :: jsval
  refreshSecret :: jsval
  refreshExpiresIn :: jsval
  saltRounds :: jsval

text \<open>
  The third-party libraries \<open>bcrypt\<close> and \<open>jsonwebtoken\<close> are parameters: any function
  may stand for them, and each of them may throw (or reject). \<open>jwt_verify token secret\<close>
  returns the decoded payload; \<open>jwt_sign payload secret expiresIn\<close> returns the token.
\<close>

record libraries =
  bcrypt_hash :: "jsval \<Rightarrow> jsval \<Rightarrow> js_error + jsval"
  bcrypt_compare :: "jsval \<Rightarrow> jsval \<Rightarrow> js_error + bool"
  jwt_sign :: "jsval \<Rightarrow> jsval \<Rightarrow> jsval \<Rightarrow> js_error + jsval"
  jwt_verify :: "jsval \<Rightarrow> jsval \<Rightarrow> js_error + jsval"

record env =
  authConfig :: auth_config
  libs :: libraries

section \<open>The relational store\<close>

text \<open>
  The tables \<open>users\<close> (alias \<open>u\<close>) and \<open>roles\<close> (alias \<open>r\<close>) with the columns the queries
  name. A column holds the value the driver hands to JavaScript, \<open>JNull\<close> for SQL NULL.
  The order of the lists is the order in which the engine returns rows.
\<close>

record user_row =
  u_id :: jsval
  u_username :: jsval
  u_email :: jsval
  u_password_hash :: jsval
  u_role_id :: jsval
  u_municipality_id :: jsval
  u_first_name :: jsval
  u_last_name :: jsval
  u_phone :: jsval
  u_profile_image_url :: jsval
  u_is_active :: jsval
  u_last_login :: jsval
  u_email_verified :: jsval
  u_created_at :: jsval
  u_updated_at :: jsval
  u_deleted_at :: jsval

record role_row =
  r_id :: jsval
  r_role_name :: jsval
  r_permissions :: jsval

record database =
  users :: "user_row list"
  roles :: "role_row list"
  next_id :: int
  current_timestamp :: jsval

text \<open>A query parameter: the driver sends \<open>undefined\<close> as NULL.\<close>

definition sql_param :: "jsval \<Rightarrow> jsval" where
  "sql_param v = (if v = JUndefined then JNull else v)"

text \<open>
  SQL \<open>a = b\<close> in a WHERE or ON clause: true only when neither side is NULL and the values
  are equal. Coercion between a textual parameter and a numeric column is not modelled.
\<close>

definition sql_eq :: "jsval \<Rightarrow> jsval \<Rightarrow> bool" where
  "sql_eq a b = (a \<noteq> JNull \<and> b \<noteq> JNull \<and> a = b)"

definition is_null :: "jsval \<Rightarrow> bool" where
  "is_null v = (v = JNull)"

text \<open>
  \<open>FROM users u LEFT JOIN roles r ON u.role_id = r.id\<close>: every user row with each role
  row that matches, or with NULLs for the role columns when none does.
\<close>

definition left_join_roles :: "database \<Rightarrow> (user_row \<times> jsval \<times> jsval) list" where
  "left_join_roles d =
     concat (map (\<lambda>u.
       (case filter (\<lambda>r. sql_eq (u_role_id u) (r_id r)) (roles d) of
          [] \<Rightarrow> [(u, JNull, JNull)]
        | rs \<Rightarrow> map (\<lambda>r. (u, r_role_name r, r_permissions r)) rs)) (users d))"

text \<open>The SELECT list of \<open>findByEmail\<close> and \<open>findByUsername\<close>.\<close>

definition select_with_hash :: "user_row \<times> jsval \<times> jsval \<Rightarrow> jsval" where
  "select_with_hash j = (case j of (u, role_name, permissions) \<Rightarrow> JObj
     [(''id'', u_id u), (''username'', u_username u), (''email'', u_email u),
      (''password_hash'', u_password_hash u), (''role_id'', u_role_id u),
      (''municipality_id'', u_municipality_id u),
      (''first_name'', u_first_name u), (''last_name'', u_last_name u), (''phone'', u_phone u),
      (''profile_image_url'', u_profile_image_url u), (''is_active'', u_is_active u),
      (''last_login'', u_last_login u), (''email_verified'', u_email_verified u),
      (''created_at'', u_created_at u), (''updated_at'', u_updated_at u),
      (''role_name'', role_name), (''permissions'', permissions)])"

text \<open>The SELECT list of \<open>findById\<close>: the same without \<open>u.password_hash\<close>.\<close>

definition select_without_hash :: "user_row \<times> jsval \<times> jsval \<Rightarrow> jsval" where
  "select_without_hash j = (case j of (u, role_name, permissions) \<Rightarrow> JObj
     [(''id'', u_id u), (''username'', u_username u), (''email'', u_email u),
      (''role_id'', u_role_id u), (''municipality_id'', u_municipality_id u),
      (''first_name'', u_first_name u), (''last_name'', u_last_name u), (''phone'', u_phone u),
      (''profile_image_url'', u_profile_image_url u), (''is_active'', u_is_active u),
      (''last_login'', u_last_login u), (''email_verified'', u_email_verified u),
      (''created_at'', u_created_at u), (''updated_at'', u_updated_at u),
      (''role_name'', role_name), (''permissions'', permissions)])"

text \<open>\<open>result.rows[0] || null\<close>\<close>

definition first_or_null :: "jsval list \<Rightarrow> jsval" where
  "first_or_null rows = (case rows of [] \<Rightarrow> JNull | row # _ \<Rightarrow> js_or row JNull)"

text \<open>
  Modelled from the spec: the schema of the \<open>users\<close> table is not among the sources, so
  the values an INSERT gives to the columns it does not list are taken from the data model
  of the spec (a numeric id, timestamps, a soft-delete marker that is unset for a
  record that exists): \<open>id\<close> comes from a sequence, \<open>created_at\<close> and \<open>updated_at\<close> are the
  current time, \<open>email_verified\<close> is false, the other columns are NULL. The column list
  and the VALUES clause (with the literal \<open>true\<close> for \<open>is_active\<close>) are those of \<open>create\<close>.
  \<open>vs\<close> are the eight query parameters in order.
\<close>

definition insert_user :: "database \<Rightarrow> jsval list \<Rightarrow> user_row" where
  "insert_user d vs =
     \<lparr> u_id = JNum (of_int (next_id d)),
       u_username = sql_param (vs ! 0),
       u_email = sql_param (vs ! 1),
       u_password_hash = sql_param (vs ! 2),
       u_role_id = sql_param (vs ! 3),
       u_municipality_id = sql_param (vs ! 4),
       u_first_name = sql_param (vs ! 5),
       u_last_name = sql_param (vs ! 6),
       u_phone = sql_param (vs ! 7),
       u_profile_image_url = JNull,
       u_is_active = JBool True,
       u_last_login = JNull,
       u_email_verified = JBool False,
       u_created_at = current_timestamp d,
       u_updated_at = current_timestamp d,
       u_deleted_at = JNull \<rparr>"

text \<open>The RETURNING list of \<open>create\<close>.\<close>

definition returning :: "user_row \<Rightarrow> jsval" where
  "returning u = JObj
     [(''id'', u_id u), (''username'', u_username u), (''email'', u_email u),
      (''role_id'', u_role_id u), (''municipality_id'', u_municipality_id u),
      (''first_name'', u_first_name u), (''last_name'', u_last_name u), (''phone'', u_phone u),
      (''is_active'', u_is_active u), (''created_at'', u_created_at u)]"

section \<open>Asynchronous functions\<close>

text \<open>
  An \<open>async\<close> function runs against the store and either resolves or rejects. The world
  also keeps the list of the awaited collaborator calls made so far (the repository
  methods and the two password functions), in call order, each with its arguments.
\<close>

datatype call =
    EmailExists jsval
  | UsernameExists jsval
  | FindByEmail jsval
  | FindByUsername jsval
  | FindById jsval
  | Create jsval
  | UpdateLastLogin jsval
  | HashPassword jsval
  | ComparePassword jsval jsval

record world =
  db :: database
  calls :: "call list"

type_synonym 'a async = "world \<Rightarrow> (js_error + 'a) \<times> world"

definition resolve :: "'a \<Rightarrow> 'a async" where
  "resolve x w = (Inr x, w)"

definition reject :: "js_error \<Rightarrow> 'a async" where
  "reject e w = (Inl e, w)"

text \<open>A synchronous expression inside an async function: a throw rejects.\<close>

definition sync :: "js_error + 'a \<Rightarrow> 'a async" where
  "sync r w = (r, w)"

text \<open>\<open>const x = await m; ...\<close>\<close>

definition await :: "'a async \<Rightarrow> ('a \<Rightarrow> 'b async) \<Rightarrow> 'b async" where
  "await m f w = (case m w of (Inl e, w') \<Rightarrow> (Inl e, w') | (Inr x, w') \<Rightarrow> f x w')"

definition record_call :: "call \<Rightarrow> world \<Rightarrow> world" where
  "record_call c w = w\<lparr>calls := calls w @ [c]\<rparr>"

section \<open>UserRepository\<close>

text \<open>The rows each SELECT returns, in the engine's order.\<close>

definition rows_findByEmail :: "database \<Rightarrow> jsval \<Rightarrow> jsval list" where
  "rows_findByEmail d email =
     map select_with_hash
       (filter (\<lambda>(u, role_name, permissions).
           sql_eq (u_email u) (sql_param email) \<and> is_null (u_deleted_at u))
         (left_join_roles d))"

definition rows_findByUsername :: "database \<Rightarrow> jsval \<Rightarrow> jsval list" where
  "rows_findByUsername d username =
     map select_with_hash
       (filter (\<lambda>(u, role_name, permissions).
           sql_eq (u_username u) (sql_param username) \<and> is_null (u_deleted_at u))
         (left_join_roles d))"

definition rows_findById :: "database \<Rightarrow> jsval \<Rightarrow> jsval list" where
  "rows_findById d ident =
     map select_without_hash
       (filter (\<lambda>(u, role_name, permissions).
           sql_eq (u_id u) (sql_param ident) \<and> is_null (u_deleted_at u))
         (left_join_roles d))"

definition rows_emailExists :: "database \<Rightarrow> jsval \<Rightarrow> user_row list" where
  "rows_emailExists d email =
     filter (\<lambda>u. sql_eq (u_email u) (sql_param email) \<and> is_null (u_deleted_at u)) (users d)"

definition rows_usernameExists :: "database \<Rightarrow> jsval \<Rightarrow> user_row list" where
  "rows_usernameExists d username =
     filter (\<lambda>u. sql_eq (u_username u) (sql_param username) \<and> is_null (u_deleted_at u))
       (users d)"

definition findByEmail :: "jsval \<Rightarrow> jsval async" where
  "findByEmail email w =
     (Inr (first_or_null (rows_findByEmail (db w) email)), record_call (FindByEmail email) w)"

definition findByUsername :: "jsval \<Rightarrow> jsval async" where
  "findByUsername username w =
     (Inr (first_or_null (rows_findByUsername (db w) username)),
      record_call (FindByUsername username) w)"

definition findById :: "jsval \<Rightarrow> jsval async" where
  "findById ident w =
     (Inr (first_or_null (rows_findById (db w) ident)), record_call (FindById ident) w)"

definition create :: "jsval \<Rightarrow> jsval async" where
  "create userData w =
     (if nullish userData
      then (Inl (type_error userData ''username''), record_call (Create userData) w)
      else
        let username = own_prop userData ''username'';
            email = own_prop userData ''email'';
            passwordHash = own_prop userData ''passwordHash'';
            roleId = own_prop userData ''roleId'';
            municipalityId = own_prop userData ''municipalityId'';
            firstName = own_prop userData ''firstName'';
            lastName = own_prop userData ''lastName'';
            phone = own_prop userData ''phone'';
            vs = [username, email, passwordHash, roleId,
                  js_or municipalityId JNull, js_or firstName JNull,
                  js_or lastName JNull, js_or phone JNull];
            d = db w;
            row = insert_user d vs
        in (Inr (returning row),
            record_call (Create userData)
              (w\<lparr>db := d\<lparr>users := users d @ [row], next_id := next_id d + 1\<rparr>\<rparr>)))"

definition updateLastLogin :: "jsval \<Rightarrow> unit async" where
  "updateLastLogin userId w =
     (let d = db w;
          us = map (\<lambda>u. if sql_eq (u_id u) (sql_param userId)
                         then u\<lparr>u_last_login := current_timestamp d\<rparr> else u) (users d)
      in (Inr (), record_call (UpdateLastLogin userId) (w\<lparr>db := d\<lparr>users := us\<rparr>\<rparr>)))"

definition emailExists :: "jsval \<Rightarrow> bool async" where
  "emailExists email w =
     (Inr (length (rows_emailExists (db w) email) > 0), record_call (EmailExists email) w)"

definition usernameExists :: "jsval \<Rightarrow> bool async" where
  "usernameExists username w =
     (Inr (length (rows_usernameExists (db w) username) > 0),
      record_call (UsernameExists username) w)"

section \<open>AuthService\<close>

definition hashPassword :: "env \<Rightarrow> jsval \<Rightarrow> jsval async" where
  "hashPassword en password w =
     (bcrypt_hash (libs en) password (saltRounds (authConfig en)),
      record_call (HashPassword password) w)"

definition comparePassword :: "env \<Rightarrow> jsval \<Rightarrow> jsval \<Rightarrow> bool async" where
  "comparePassword en password hash w =
     (bcrypt_compare (libs en) password hash, record_call (ComparePassword password hash) w)"

definition access_payload :: "jsval \<Rightarrow> jsval" where
  "access_payload user = JObj
     [(''userId'', own_prop user ''id''),
      (''username'', own_prop user ''username''),
      (''email'', own_prop user ''email''),
      (''roleId'', own_prop user ''role_id''),
      (''roleName'', own_prop user ''role_name''),
      (''municipalityId'', own_prop user ''municipality_id''),
      (''type'', JStr ''access'')]"

definition generateAccessToken :: "env \<Rightarrow> jsval \<Rightarrow> js_error + jsval" where
  "generateAccessToken en user =
     (if nullish user then Inl (type_error user ''id'')
      else jwt_sign (libs en) (access_payload user)
             (accessSecret (authConfig en)) (accessExpiresIn (authConfig en)))"

definition refresh_payload :: "jsval \<Rightarrow> jsval" where
  "refresh_payload user = JObj [(''userId'', own_prop user ''id''), (''type'', JStr ''refresh'')]"

definition generateRefreshToken :: "env \<Rightarrow> jsval \<Rightarrow> js_error + jsval" where
  "generateRefreshToken en user =
     (if nullish user then Inl (type_error user ''id'')
      else jwt_sign (libs en) (refresh_payload user)
             (refreshSecret (authConfig en)) (refreshExpiresIn (authConfig en)))"

definition verifyAccessToken :: "env \<Rightarrow> jsval \<Rightarrow> js_error + jsval" where
  "verifyAccessToken en token = jwt_verify (libs en) token (accessSecret (authConfig en))"

definition verifyRefreshToken :: "env \<Rightarrow> jsval \<Rightarrow> js_error + jsval" where
  "verifyRefreshToken en token = jwt_verify (libs en) token (refreshSecret (authConfig en))"

text \<open>\<open>const sanitized = { ...user }; delete sanitized.password_hash; return sanitized;\<close>\<close>

definition sanitizeUser :: "jsval \<Rightarrow> jsval" where
  "sanitizeUser user = JObj (AList.delete ''password_hash'' (spread user))"

definition register :: "env \<Rightarrow> jsval \<Rightarrow> jsval async" where
  "register en userData =
     (if nullish userData then reject (type_error userData ''username'')
      else
        let username = own_prop userData ''username'';
            email = own_prop userData ''email'';
            password = own_prop userData ''password'';
            roleId = own_prop userData ''roleId'';
            municipalityId = own_prop userData ''municipalityId'';
            firstName = own_prop userData ''firstName'';
            lastName = own_prop userData ''lastName'';
            phone = own_prop userData ''phone''
        in
        await (emailExists email) (\<lambda>emailExists'.
        await (usernameExists username) (\<lambda>usernameExists'.
          if emailExists' then reject (Error ''Email already registered'')
          else if usernameExists' then reject (Error ''Username already taken'')
          else
            await (hashPassword en password) (\<lambda>passwordHash.
            await (create (JObj
                     [(''username'', username), (''email'', email),
                      (''passwordHash'', passwordHash), (''roleId'', js_or roleId (JNum 5)),
                      (''municipalityId'', municipalityId), (''firstName'', firstName),
                      (''lastName'', lastName), (''phone'', phone)])) (\<lambda>user.
            await (sync (get_prop user ''id'')) (\<lambda>user_id.
            await (findById user_id) (\<lambda>fullUser.
            await (sync (generateAccessToken en fullUser)) (\<lambda>accessToken.
            await (sync (generateRefreshToken en fullUser)) (\<lambda>refreshToken.
              resolve (JObj
                [(''user'', sanitizeUser fullUser), (''accessToken'', accessToken),
                 (''refreshToken'', refreshToken)]))))))))))"

definition login :: "env \<Rightarrow> jsval \<Rightarrow> jsval \<Rightarrow> jsval async" where
  "login en login' password =
     await (findByEmail login') (\<lambda>user0.
     await (if \<not> truthy user0 then findByUsername login' else resolve user0) (\<lambda>user.
       if \<not> truthy user then reject (Error ''Invalid credentials'')
       else if \<not> truthy (own_prop user ''is_active'') then reject (Error ''Account is inactive'')
       else
         await (comparePassword en password (own_prop user ''password_hash'')) (\<lambda>isPasswordValid.
           if \<not> isPasswordValid then reject (Error ''Invalid credentials'')
           else
             await (updateLastLogin (own_prop user ''id'')) (\<lambda>_.
             await (sync (generateAccessToken en user)) (\<lambda>accessToken.
             await (sync (generateRefreshToken en user)) (\<lambda>refreshToken.
               resolve (JObj
                 [(''user'', sanitizeUser user), (''accessToken'', accessToken),
                  (''refreshToken'', refreshToken)])))))))"

definition refreshToken :: "env \<Rightarrow> jsval \<Rightarrow> jsval async" where
  "refreshToken en refreshToken' =
     await (sync (verifyRefreshToken en refreshToken')) (\<lambda>decoded.
     await (sync (get_prop decoded ''type'')) (\<lambda>decoded_type.
       if decoded_type \<noteq> JStr ''refresh'' then reject (Error ''Invalid token type'')
       else
         await (findById (own_prop decoded ''userId'')) (\<lambda>user.
           if \<not> truthy user then reject (Error ''User not found'')
           else if \<not> truthy (own_prop user ''is_active'') then reject (Error ''Account is inactive'')
           else
             await (sync (generateAccessToken en user)) (\<lambda>accessToken.
               resolve (JObj [(''accessToken'', accessToken)])))))"

section \<open>Requests and responses\<close>

text \<open>
  The parts of an Express request the code reads or writes: \<open>req.headers.authorization\<close>
  (absent, or a string), \<open>req.body\<close>, and \<open>req.user\<close> (\<open>undefined\<close> until a
  middleware attaches it). A response is the status and the object given to \<open>res.json\<close>.
\<close>

record request =
  req_authorization :: "string option"
  req_body :: jsval
  req_user :: jsval

record response =
  status :: nat
  json :: jsval

text \<open>What a middleware did: it answered the request, or it called \<open>next()\<close>.\<close>

datatype outcome = Respond response | CallNext

section \<open>The authenticate middleware\<close>

text \<open>The body of the \<open>try\<close> block; \<open>Inl\<close> is an error thrown inside it.\<close>

definition authenticate_try :: "env \<Rightarrow> request \<Rightarrow> js_error + request \<times> outcome" where
  "authenticate_try en req =
     (case req_authorization req of
        None \<Rightarrow>
          Inr (req, Respond \<lparr>status = 401, json = JObj
            [(''status'', JStr ''error''), (''message'', JStr ''Authentication required''),
             (''code'', JStr ''NO_TOKEN'')]\<rparr>)
      | Some authHeader \<Rightarrow>
          if authHeader = [] \<or> take 7 authHeader \<noteq> ''Bearer ''
          then Inr (req, Respond \<lparr>status = 401, json = JObj
            [(''status'', JStr ''error''), (''message'', JStr ''Authentication required''),
             (''code'', JStr ''NO_TOKEN'')]\<rparr>)
          else
            let token = JStr (drop 7 authHeader) in
            bindE (verifyAccessToken en token) (\<lambda>decoded.
            bindE (get_prop decoded ''type'') (\<lambda>decoded_type.
              if decoded_type \<noteq> JStr ''access''
              then Inr (req, Respond \<lparr>status = 401, json = JObj
                [(''status'', JStr ''error''), (''message'', JStr ''Invalid token type''),
                 (''code'', JStr ''INVALID_TOKEN_TYPE'')]\<rparr>)
              else
                Inr (req\<lparr>req_user := JObj
                  [(''userId'', own_prop decoded ''userId''),
                   (''username'', own_prop decoded ''username''),
                   (''email'', own_prop decoded ''email''),
                   (''roleId'', own_prop decoded ''roleId''),
                   (''roleName'', own_prop decoded ''roleName''),
                   (''municipalityId'', own_prop decoded ''municipalityId'')]\<rparr>,
                  CallNext))))"

definition authenticate :: "env \<Rightarrow> request \<Rightarrow> request \<times> outcome" where
  "authenticate en req =
     (case authenticate_try en req of
        Inr r \<Rightarrow> r
      | Inl error \<Rightarrow>
          if err_name error = ''TokenExpiredError''
          then (req, Respond \<lparr>status = 401, json = JObj
            [(''status'', JStr ''error''), (''message'', JStr ''Token expired''),
             (''code'', JStr ''TOKEN_EXPIRED'')]\<rparr>)
          else if err_name error = ''JsonWebTokenError''
          then (req, Respond \<lparr>status = 401, json = JObj
            [(''status'', JStr ''error''), (''message'', JStr ''Invalid token''),
             (''code'', JStr ''INVALID_TOKEN'')]\<rparr>)
          else (req, Respond \<lparr>status = 401, json = JObj
            [(''status'', JStr ''error''), (''message'', JStr ''Authentication failed''),
             (''code'', JStr ''AUTH_FAILED'')]\<rparr>))"

section \<open>The authorize middleware\<close>

text \<open>
  \<open>Array.prototype.includes\<close> compares with SameValueZero: primitives by value, objects
  and arrays by identity. The role names of a request are decoded afresh, so an object
  or array among them is identical to no element of the captured array.
\<close>

fun same_value_zero :: "jsval \<Rightarrow> jsval \<Rightarrow> bool" where
  "same_value_zero (JArr xs) b = False"
| "same_value_zero (JObj kvs) b = False"
| "same_value_zero a b = (a = b)"

definition array_includes :: "jsval list \<Rightarrow> jsval \<Rightarrow> bool" where
  "array_includes xs v = list_ex (\<lambda>x. same_value_zero x v) xs"

text \<open>\<open>Array.isArray(allowedRoles) ? allowedRoles : [allowedRoles]\<close>\<close>

definition normalize_roles :: "jsval \<Rightarrow> jsval list" where
  "normalize_roles allowedRoles = (case allowedRoles of JArr rs \<Rightarrow> rs | v \<Rightarrow> [v])"

definition authorize :: "jsval \<Rightarrow> request \<Rightarrow> request \<times> outcome" where
  "authorize allowedRoles req =
     (let roles = normalize_roles allowedRoles in
      if \<not> truthy (req_user req)
      then (req, Respond \<lparr>status = 401, json = JObj
        [(''status'', JStr ''error''), (''message'', JStr ''Authentication required''),
         (''code'', JStr ''NOT_AUTHENTICATED'')]\<rparr>)
      else if \<not> array_includes roles (own_prop (req_user req) ''roleName'')
      then (req, Respond \<lparr>status = 403, json = JObj
        [(''status'', JStr ''error''),
         (''message'', JStr ''Access denied. Insufficient permissions.''),
         (''code'', JStr ''FORBIDDEN''),
         (''requiredRoles'', JArr roles),
         (''userRole'', own_prop (req_user req) ''roleName'')]\<rparr>)
      else (req, CallNext))"

section \<open>Input validation\<close>

text \<open>The white space and line terminators of \<open>String.prototype.trim\<close> below 256.\<close>

definition js_whitespace :: "char \<Rightarrow> bool" where
  "js_whitespace c = (of_char c \<in> {9, 10, 11, 12, 13, 32, 160 :: nat})"

definition trim :: "string \<Rightarrow> string" where
  "trim s = rev (dropWhile js_whitespace (rev (dropWhile js_whitespace s)))"

definition sanitizeInput :: "jsval \<Rightarrow> jsval" where
  "sanitizeInput input =
     (case input of JStr s \<Rightarrow> (if s = [] then JStr [] else JStr (trim s)) | _ \<Rightarrow> JStr [])"

text \<open>
  \<open>/^[^\s@]+@[^\s@]+\.[^\s@]+$/\<close>: a non-empty part before the first \<open>@\<close>, and after it a
  part with no further \<open>@\<close> that has a dot with at least one character on each side;
  no white space anywhere (\<open>\s\<close> matches the same characters as \<open>trim\<close> removes).
\<close>

definition emailRegex_test :: "string \<Rightarrow> bool" where
  "emailRegex_test s =
     (let local_part = takeWhile (\<lambda>c. c \<noteq> CHR ''@'') s;
          rest = dropWhile (\<lambda>c. c \<noteq> CHR ''@'') s
      in case rest of
           [] \<Rightarrow> False
         | at_sign # domain \<Rightarrow>
             local_part \<noteq> []
             \<and> list_all (\<lambda>c. \<not> js_whitespace c) local_part
             \<and> list_all (\<lambda>c. \<not> js_whitespace c \<and> c \<noteq> CHR ''@'') domain
             \<and> list_ex (\<lambda>i. domain ! i = CHR ''.'') [1..<length domain - 1])"

definition isValidEmail :: "jsval \<Rightarrow> bool" where
  "isValidEmail email =
     (case email of
        JStr s \<Rightarrow> if s = [] then False else emailRegex_test s \<and> length s \<le> 255
      | _ \<Rightarrow> False)"

definition isValidPassword :: "jsval \<Rightarrow> jsval" where
  "isValidPassword password =
     (case password of
        JStr s \<Rightarrow>
          if s = [] then JObj [(''valid'', JBool False), (''error'', JStr ''Password is required'')]
          else if length s < 8
          then JObj [(''valid'', JBool False),
                     (''error'', JStr ''Password must be at least 8 characters long'')]
          else JObj [(''valid'', JBool True)]
      | _ \<Rightarrow> JObj [(''valid'', JBool False), (''error'', JStr ''Password is required'')])"

text \<open>\<open>/^[a-zA-Z0-9_-]{3,100}$/\<close>\<close>

definition username_char :: "char \<Rightarrow> bool" where
  "username_char c =
     (let n = (of_char c :: nat)
      in (97 \<le> n \<and> n \<le> 122) \<or> (65 \<le> n \<and> n \<le> 90) \<or> (48 \<le> n \<and> n \<le> 57)
         \<or> n = 95 \<or> n = 45)"

definition usernameRegex_test :: "string \<Rightarrow> bool" where
  "usernameRegex_test s = (3 \<le> length s \<and> length s \<le> 100 \<and> list_all username_char s)"

definition isValidUsername :: "jsval \<Rightarrow> bool" where
  "isValidUsername username =
     (case username of
        JStr s \<Rightarrow> if s = [] then False else usernameRegex_test s
      | _ \<Rightarrow> False)"

section \<open>AuthController\<close>

text \<open>A handler always answers: the \<open>catch\<close> block turns every rejection into a response.\<close>

type_synonym handler = "world \<Rightarrow> response \<times> world"

definition register_try :: "env \<Rightarrow> request \<Rightarrow> response async" where
  "register_try en req =
     (if nullish (req_body req) then reject (type_error (req_body req) ''username'')
      else
        let username = own_prop (req_body req) ''username'';
            email = own_prop (req_body req) ''email'';
            password = own_prop (req_body req) ''password'';
            roleId = own_prop (req_body req) ''roleId'';
            municipalityId = own_prop (req_body req) ''municipalityId'';
            firstName = own_prop (req_body req) ''firstName'';
            lastName = own_prop (req_body req) ''lastName'';
            phone = own_prop (req_body req) ''phone''
        in
        if \<not> truthy username \<or> \<not> truthy email \<or> \<not> truthy password
        then resolve \<lparr>status = 400, json = JObj
          [(''status'', JStr ''error''), (''message'', JStr ''Missing required fields''),
           (''code'', JStr ''MISSING_FIELDS''),
           (''required'', JArr [JStr ''username'', JStr ''email'', JStr ''password''])]\<rparr>
        else
          let sanitizedUsername = sanitizeInput username;
              sanitizedEmail = sanitizeInput email
          in
          if \<not> isValidEmail sanitizedEmail
          then resolve \<lparr>status = 400, json = JObj
            [(''status'', JStr ''error''), (''message'', JStr ''Invalid email format''),
             (''code'', JStr ''INVALID_EMAIL'')]\<rparr>
          else if \<not> isValidUsername sanitizedUsername
          then resolve \<lparr>status = 400, json = JObj
            [(''status'', JStr ''error''),
             (''message'', JStr
               ''Invalid username. Must be 3-100 characters, alphanumeric with underscore or hyphen.''),
             (''code'', JStr ''INVALID_USERNAME'')]\<rparr>
          else
            let passwordValidation = isValidPassword password in
            if \<not> truthy (own_prop passwordValidation ''valid'')
            then resolve \<lparr>status = 400, json = JObj
              [(''status'', JStr ''error''),
               (''message'', own_prop passwordValidation ''error''),
               (''code'', JStr ''INVALID_PASSWORD'')]\<rparr>
            else
              await (register en (JObj
                [(''username'', sanitizedUsername), (''email'', sanitizedEmail),
                 (''password'', password), (''roleId'', roleId),
                 (''municipalityId'', municipalityId),
                 (''firstName'', if truthy firstName then sanitizeInput firstName else JNull),
                 (''lastName'', if truthy lastName then sanitizeInput lastName else JNull),
                 (''phone'', if truthy phone then sanitizeInput phone else JNull)])) (\<lambda>result.
                resolve \<lparr>status = 201, json = JObj
                  [(''status'', JStr ''success''),
                   (''message'', JStr ''User registered successfully''),
                   (''data'', JObj
                      [(''user'', own_prop result ''user''),
                       (''accessToken'', own_prop result ''accessToken''),
                       (''refreshToken'', own_prop result ''refreshToken'')])]\<rparr>))"

definition controller_register :: "env \<Rightarrow> request \<Rightarrow> handler" where
  "controller_register en req w =
     (case register_try en req w of
        (Inr res, w') \<Rightarrow> (res, w')
      | (Inl error, w') \<Rightarrow>
          if err_message error = ''Email already registered''
               \<or> err_message error = ''Username already taken''
          then (\<lparr>status = 400, json = JObj
            [(''status'', JStr ''error''), (''message'', JStr (err_message error)),
             (''code'', JStr ''DUPLICATE_USER'')]\<rparr>, w')
          else (\<lparr>status = 500, json = JObj
            [(''status'', JStr ''error''), (''message'', JStr ''Registration failed''),
             (''code'', JStr ''REGISTRATION_ERROR'')]\<rparr>, w'))"

definition login_try :: "env \<Rightarrow> request \<Rightarrow> response async" where
  "login_try en req =
     (if nullish (req_body req) then reject (type_error (req_body req) ''login'')
      else
        let login' = own_prop (req_body req) ''login'';
            password = own_prop (req_body req) ''password''
        in
        if \<not> truthy login' \<or> \<not> truthy password
        then resolve \<lparr>status = 400, json = JObj
          [(''status'', JStr ''error''), (''message'', JStr ''Missing required fields''),
           (''code'', JStr ''MISSING_FIELDS''),
           (''required'', JArr [JStr ''login'', JStr ''password''])]\<rparr>
        else
          let sanitizedLogin = sanitizeInput login' in
          await (login en sanitizedLogin password) (\<lambda>result.
            resolve \<lparr>status = 200, json = JObj
              [(''status'', JStr ''success''), (''message'', JStr ''Login successful''),
               (''data'', JObj
                  [(''user'', own_prop result ''user''),
                   (''accessToken'', own_prop result ''accessToken''),
                   (''refreshToken'', own_prop result ''refreshToken'')])]\<rparr>))"

definition controller_login :: "env \<Rightarrow> request \<Rightarrow> handler" where
  "controller_login en req w =
     (case login_try en req w of
        (Inr res, w') \<Rightarrow> (res, w')
      | (Inl error, w') \<Rightarrow>
          if err_message error = ''Invalid credentials''
               \<or> err_message error = ''Account is inactive''
          then (\<lparr>status = 401, json = JObj
            [(''status'', JStr ''error''), (''message'', JStr (err_message error)),
             (''code'', JStr ''AUTHENTICATION_FAILED'')]\<rparr>, w')
          else (\<lparr>status = 500, json = JObj
            [(''status'', JStr ''error''), (''message'', JStr ''Login failed''),
             (''code'', JStr ''LOGIN_ERROR'')]\<rparr>, w'))"

definition me_try :: "request \<Rightarrow> response async" where
  "me_try req =
     await (sync (get_prop (req_user req) ''userId'')) (\<lambda>userId.
     await (findById userId) (\<lambda>user'.
       if \<not> truthy user'
       then resolve \<lparr>status = 404, json = JObj
         [(''status'', JStr ''error''), (''message'', JStr ''User not found''),
          (''code'', JStr ''USER_NOT_FOUND'')]\<rparr>
       else
         let sanitizedUser = sanitizeUser user' in
         resolve \<lparr>status = 200, json = JObj
           [(''status'', JStr ''success''),
            (''data'', JObj [(''user'', sanitizedUser)])]\<rparr>))"

definition controller_me :: "request \<Rightarrow> handler" where
  "controller_me req w =
     (case me_try req w of
        (Inr res, w') \<Rightarrow> (res, w')
      | (Inl error, w') \<Rightarrow>
          (\<lparr>status = 500, json = JObj
            [(''status'', JStr ''error''),
             (''message'', JStr ''Failed to retrieve user information''),
             (''code'', JStr ''GET_USER_ERROR'')]\<rparr>, w'))"

definition refresh_try :: "env \<Rightarrow> request \<Rightarrow> response async" where
  "refresh_try en req =
     (if nullish (req_body req) then reject (type_error (req_body req) ''refreshToken'')
      else
        let refreshToken' = own_prop (req_body req) ''refreshToken'' in
        if \<not> truthy refreshToken'
        then resolve \<lparr>status = 400, json = JObj
          [(''status'', JStr ''error''), (''message'', JStr ''Refresh token is required''),
           (''code'', JStr ''MISSING_REFRESH_TOKEN'')]\<rparr>
        else
          await (refreshToken en refreshToken') (\<lambda>result.
            resolve \<lparr>status = 200, json = JObj
              [(''status'', JStr ''success''),
               (''message'', JStr ''Token refreshed successfully''),
               (''data'', JObj [(''accessToken'', own_prop result ''accessToken'')])]\<rparr>))"

definition controller_refresh :: "env \<Rightarrow> request \<Rightarrow> handler" where
  "controller_refresh en req w =
     (case refresh_try en req w of
        (Inr res, w') \<Rightarrow> (res, w')
      | (Inl error, w') \<Rightarrow>
          if err_name error = ''TokenExpiredError''
          then (\<lparr>status = 401, json = JObj
            [(''status'', JStr ''error''), (''message'', JStr ''Refresh token expired''),
             (''code'', JStr ''TOKEN_EXPIRED'')]\<rparr>, w')
          else if err_name error = ''JsonWebTokenError''
                    \<or> err_message error = ''Invalid token type''
          then (\<lparr>status = 401, json = JObj
            [(''status'', JStr ''error''), (''message'', JStr ''Invalid refresh token''),
             (''code'', JStr ''INVALID_TOKEN'')]\<rparr>, w')
          else if err_message error = ''User not found''
                    \<or> err_message error = ''Account is inactive''
          then (\<lparr>status = 401, json = JObj
            [(''status'', JStr ''error''), (''message'', JStr (err_message error)),
             (''code'', JStr ''REFRESH_FAILED'')]\<rparr>, w')
          else (\<lparr>status = 500, json = JObj
            [(''status'', JStr ''error''), (''message'', JStr ''Token refresh failed''),
             (''code'', JStr ''REFRESH_ERROR'')]\<rparr>, w'))"

section \<open>\<open>sanitizeUser\<close> on a store of objects\<close>

text \<open>
  To speak about the caller's object after the call, objects live in a store: an
  address is an index into the list of allocated objects. The spread allocates a new
  object with the properties of the argument, and \<open>delete\<close> updates that new object
  in place. A reference handed to the function is the address of an allocated object
  (\<open>user < length h\<close>).
\<close>

type_synonym store = "(string \<times> jsval) list list"

definition alloc :: "store \<Rightarrow> (string \<times> jsval) list \<Rightarrow> nat \<times> store" where
  "alloc h props = (length h, h @ [props])"

definition delete_property :: "store \<Rightarrow> nat \<Rightarrow> string \<Rightarrow> store" where
  "delete_property h a k = h[a := AList.delete k (h ! a)]"

definition sanitizeUser_store :: "store \<Rightarrow> nat \<Rightarrow> nat \<times> store" where
  "sanitizeUser_store h user =
     (let (sanitized, h1) = alloc h (spread (JObj (h ! user)));
          h2 = delete_property h1 sanitized ''password_hash''
      in (sanitized, h2))"

section \<open>Notions used to state the properties\<close>

text \<open>
  The identity a login identifier resolves to: the first row by email, else the first
  row by username, else \<open>null\<close> (the two lookups at the head of \<open>login\<close>).
\<close>

definition login_lookup :: "database \<Rightarrow> jsval \<Rightarrow> jsval" where
  "login_lookup d l =
     (let byEmail = first_or_null (rows_findByEmail d l)
      in if truthy byEmail then byEmail else first_or_null (rows_findByUsername d l))"

text \<open>The calls made during a run: those recorded after the ones already in \<open>w\<close>.\<close>

definition new_calls :: "world \<Rightarrow> world \<Rightarrow> call list" where
  "new_calls w w' = drop (length (calls w)) (calls w')"

fun is_compare :: "call \<Rightarrow> bool" where
  "is_compare (ComparePassword p h) = True"
| "is_compare c = False"

fun is_hash :: "call \<Rightarrow> bool" where
  "is_hash (HashPassword p) = True"
| "is_hash c = False"

fun is_write :: "call \<Rightarrow> bool" where
  "is_write (Create d) = True"
| "is_write (UpdateLastLogin i) = True"
| "is_write c = False"

text \<open>A value compared by value: anything but an array or an object.\<close>

fun primitive :: "jsval \<Rightarrow> bool" where
  "primitive (JArr xs) = False"
| "primitive (JObj kvs) = False"
| "primitive v = True"

fun is_array :: "jsval \<Rightarrow> bool" where
  "is_array (JArr xs) = True"
| "is_array v = False"

text \<open>\<open>data.user\<close> of a response body, \<open>undefined\<close> when the body has no \<open>data\<close>.\<close>

definition response_user :: "response \<Rightarrow> jsval" where
  "response_user r = own_prop (own_prop (json r) ''data'') ''user''"

text \<open>
  A token library keeps the kind discriminator when, whatever the two secrets are, a token
  it signed never decodes to a payload with another \<open>type\<close>.
\<close>

definition keeps_type :: "libraries \<Rightarrow> bool" where
  "keeps_type l =
     (\<forall>payload secret expiresIn token secret' decoded.
        jwt_sign l payload secret expiresIn = Inr token \<and> jwt_verify l token secret' = Inr decoded
          \<longrightarrow> own_prop decoded ''type'' = own_prop payload ''type'')"

text \<open>A computation that never changes the store.\<close>

definition preserves_db :: "'a async \<Rightarrow> bool" where
  "preserves_db m = (\<forall>w. db (snd (m w)) = db w)"

text \<open>A computation that resolves only with values satisfying \<open>P\<close>.\<close>

definition resolves_only :: "'a async \<Rightarrow> ('a \<Rightarrow> bool) \<Rightarrow> bool" where
  "resolves_only m P = (\<forall>w r. fst (m w) = Inr r \<longrightarrow> P r)"

section \<open>A sample environment\<close>

text \<open>
  Concrete stand-ins for the libraries, and a small store, on which the properties below
  are instantiated. A sample token is the kind, a dot and the secret; both secrets of the
  sample configuration are the same key.
\<close>

definition demo_hash :: "jsval \<Rightarrow> jsval \<Rightarrow> js_error + jsval" where
  "demo_hash password rounds =
     (case password of JStr s \<Rightarrow> Inr (JStr (''$2b$'' @ s))
      | _ \<Rightarrow> Inl (Error ''data and salt arguments required''))"

definition demo_compare :: "jsval \<Rightarrow> jsval \<Rightarrow> js_error + bool" where
  "demo_compare password hash =
     (case password of
        JStr s \<Rightarrow> (case hash of JStr t \<Rightarrow> Inr (t = ''$2b$'' @ s)
                   | _ \<Rightarrow> Inl (Error ''data and hash must be strings''))
      | _ \<Rightarrow> Inl (Error ''data and hash must be strings''))"

definition demo_sign :: "jsval \<Rightarrow> jsval \<Rightarrow> jsval \<Rightarrow> js_error + jsval" where
  "demo_sign payload secret expiresIn =
     (case secret of
        JStr k \<Rightarrow>
          if own_prop payload ''type'' = JStr ''access'' then Inr (JStr (''access.'' @ k))
          else if own_prop payload ''type'' = JStr ''refresh'' then Inr (JStr (''refresh.'' @ k))
          else Inl (Error ''unsupported payload'')
      | _ \<Rightarrow> Inl (Error ''secretOrPrivateKey must have a value''))"

definition demo_verify :: "jsval \<Rightarrow> jsval \<Rightarrow> js_error + jsval" where
  "demo_verify token secret =
     (case token of
        JStr t \<Rightarrow>
          (case secret of
             JStr k \<Rightarrow>
               if t = ''access.'' @ k then Inr (JObj
                 [(''userId'', JNum 1), (''username'', JStr ''alice''),
                  (''email'', JStr ''alice@example.org''), (''roleId'', JNum 1),
                  (''roleName'', JStr ''admin''), (''municipalityId'', JNull),
                  (''type'', JStr ''access''), (''iat'', JNum 100), (''exp'', JNum 1000)])
               else if t = ''refresh.'' @ k then Inr (JObj
                 [(''userId'', JNum 1), (''type'', JStr ''refresh''),
                  (''iat'', JNum 100), (''exp'', JNum 100000)])
               else if t = ''old'' then Inl (JsError ''TokenExpiredError'' ''jwt expired'')
               else Inl (JsError ''JsonWebTokenError'' ''jwt malformed'')
           | _ \<Rightarrow> Inl (JsError ''JsonWebTokenError'' ''secret or public key must be provided''))
      | _ \<Rightarrow> Inl (JsError ''JsonWebTokenError'' ''jwt must be a string''))"

definition demo_libs :: libraries where
  "demo_libs = \<lparr>bcrypt_hash = demo_hash, bcrypt_compare = demo_compare,
                 jwt_sign = demo_sign, jwt_verify = demo_verify\<rparr>"

definition demo_env :: env where
  "demo_env =
     \<lparr>authConfig = \<lparr>accessSecret = JStr ''k'', accessExpiresIn = JStr ''15m'',
                     refreshSecret = JStr ''k'', refreshExpiresIn = JStr ''7d'',
                     saltRounds = JNum 10\<rparr>,
       libs = demo_libs\<rparr>"

definition alice :: user_row where
  "alice =
     \<lparr>u_id = JNum 1, u_username = JStr ''alice'', u_email = JStr ''alice@example.org'',
       u_password_hash = JStr ''$2b$wonderland'', u_role_id = JNum 1,
       u_municipality_id = JNull, u_first_name = JStr ''Alice'', u_last_name = JNull,
       u_phone = JNull, u_profile_image_url = JNull, u_is_active = JBool True,
       u_last_login = JNull, u_email_verified = JBool True, u_created_at = JStr ''2024-01-01'',
       u_updated_at = JStr ''2024-01-01'', u_deleted_at = JNull\<rparr>"

definition bob :: user_row where
  "bob =
     \<lparr>u_id = JNum 2, u_username = JStr ''bob'', u_email = JStr ''bob@example.org'',
       u_password_hash = JStr ''$2b$builder'', u_role_id = JNum 5,
       u_municipality_id = JNum 3, u_first_name = JNull, u_last_name = JNull,
       u_phone = JNull, u_profile_image_url = JNull, u_is_active = JBool False,
       u_last_login = JNull, u_email_verified = JBool False, u_created_at = JStr ''2024-01-02'',
       u_updated_at = JStr ''2024-01-02'', u_deleted_at = JNull\<rparr>"

definition demo_db :: database where
  "demo_db =
     \<lparr>users = [alice, bob],
       roles = [\<lparr>r_id = JNum 1, r_role_name = JStr ''admin'', r_permissions = JObj []\<rparr>,
                \<lparr>r_id = JNum 5, r_role_name = JStr ''viewer'', r_permissions = JObj []\<rparr>],
       next_id = 3,
       current_timestamp = JStr ''2024-02-02''\<rparr>"

definition demo_world :: world where
  "demo_world = \<lparr>db = demo_db, calls = []\<rparr>"

text \<open>The sample store after alice was soft-deleted, and after she was deactivated.\<close>

definition demo_world_without_alice :: world where
  "demo_world_without_alice =
     \<lparr>db = demo_db\<lparr>users := [alice\<lparr>u_deleted_at := JStr ''2024-03-03''\<rparr>, bob]\<rparr>,
       calls = []\<rparr>"

definition demo_world_alice_inactive :: world where
  "demo_world_alice_inactive =
     \<lparr>db = demo_db\<lparr>users := [alice\<lparr>u_is_active := JBool False\<rparr>, bob]\<rparr>, calls = []\<rparr>"

text \<open>
  A second stand-in for the token library, whose access tokens can be read: the token is
  the \<open>type\<close> and the six claims of the signed payload, in order, separated by bars. Its
  one refresh token, \<open>stale\<close>, was issued for user 1 and also carries a name and a role
  from the time of its issue.
\<close>

definition render :: "jsval \<Rightarrow> string" where
  "render v =
     (case v of
        JStr s \<Rightarrow> s
      | JNum n \<Rightarrow> decimal (nat \<lfloor>n\<rfloor>)
      | JNull \<Rightarrow> ''null''
      | JBool b \<Rightarrow> (if b then ''true'' else ''false'')
      | _ \<Rightarrow> ''?'')"

definition demo_open_sign :: "jsval \<Rightarrow> jsval \<Rightarrow> jsval \<Rightarrow> js_error + jsval" where
  "demo_open_sign payload secret expiresIn =
     Inr (JStr (render (own_prop payload ''type'')
        @ ''|'' @ render (own_prop payload ''userId'')
        @ ''|'' @ render (own_prop payload ''username'')
        @ ''|'' @ render (own_prop payload ''email'')
        @ ''|'' @ render (own_prop payload ''roleId'')
        @ ''|'' @ render (own_prop payload ''roleName'')
        @ ''|'' @ render (own_prop payload ''municipalityId'')))"

definition demo_open_verify :: "jsval \<Rightarrow> jsval \<Rightarrow> js_error + jsval" where
  "demo_open_verify token secret =
     (if token = JStr ''stale''
      then Inr (JObj
        [(''userId'', JNum 1), (''username'', JStr ''alice-then''), (''roleId'', JNum 1),
         (''roleName'', JStr ''admin''), (''type'', JStr ''refresh''),
         (''iat'', JNum 100), (''exp'', JNum 100000)])
      else Inl (JsError ''JsonWebTokenError'' ''jwt malformed''))"

definition demo_open_env :: env where
  "demo_open_env =
     \<lparr>authConfig = \<lparr>accessSecret = JStr ''ka'', accessExpiresIn = JStr ''15m'',
                     refreshSecret = JStr ''kr'', refreshExpiresIn = JStr ''7d'',
                     saltRounds = JNum 10\<rparr>,
       libs = \<lparr>bcrypt_hash = demo_hash, bcrypt_compare = demo_compare,
                jwt_sign = demo_open_sign, jwt_verify = demo_open_verify\<rparr>\<rparr>"

text \<open>The sample store after alice was moved from role 1 to role 5.\<close>

definition demo_world_alice_viewer :: world where
  "demo_world_alice_viewer =
     \<lparr>db = demo_db\<lparr>users := [alice\<lparr>u_role_id := JNum 5\<rparr>, bob]\<rparr>, calls = []\<rparr>"

section \<open>Properties of \<open>sanitizeUser\<close>\<close>

lemma sanitizeUser_object: "sanitizeUser (JObj kvs) = JObj (AList.delete ''password_hash'' kvs)"
  by (simp add: sanitizeUser_def)

lemma sanitizeUser_no_hash: "\<not> has_key (sanitizeUser u) ''password_hash''"
  using delete_notin_dom [of "''password_hash''" "spread u"]
  by (simp add: sanitizeUser_def has_key_def)

lemma sanitizeUser_other_props:
  "k \<noteq> ''password_hash'' \<Longrightarrow> own_prop (sanitizeUser (JObj kvs)) k = own_prop (JObj kvs) k"
  by (simp add: sanitizeUser_def)

text \<open>
  C9. For an object at address \<open>u\<close> of the store, \<open>sanitizeUser\<close> returns the address of a
  new object (different from \<open>u\<close>, allocated by the call) whose properties are those of
  \<open>u\<close> with \<open>password_hash\<close> removed; every object that existed before the call, and \<open>u\<close>
  in particular, is unchanged, so \<open>u\<close> still has its \<open>password_hash\<close> if it had one. The
  new object is the value the store-free \<open>sanitizeUser\<close> computes.
\<close>

theorem sanitizeUser_copy_leaves_original:
  assumes "u < length h"
  shows "case sanitizeUser_store h u of (sanitized, h') \<Rightarrow>
           sanitized \<noteq> u
         \<and> sanitized = length h
         \<and> length h' = Suc (length h)
         \<and> (\<forall>a < length h. h' ! a = h ! a)
         \<and> h' ! sanitized = AList.delete ''password_hash'' (h ! u)
         \<and> map_of (h' ! sanitized) = (map_of (h ! u))(''password_hash'' := None)
         \<and> ''password_hash'' \<notin> fst ` set (h' ! sanitized)
         \<and> JObj (h' ! sanitized) = sanitizeUser (JObj (h ! u))
         \<and> (''password_hash'' \<in> fst ` set (h ! u) \<longrightarrow> ''password_hash'' \<in> fst ` set (h' ! u))"
  using assms
  by (simp add: sanitizeUser_store_def alloc_def delete_property_def sanitizeUser_def
      nth_append delete_conv' delete_notin_dom)

theorem sanitizeUser_copy_leaves_original_witness:
  "(0::nat) < length [[(''id'', JNum 1), (''password_hash'', JStr ''x'')]]
   \<and> sanitizeUser_store [[(''id'', JNum 1), (''password_hash'', JStr ''x'')]] 0
       = (1, [[(''id'', JNum 1), (''password_hash'', JStr ''x'')], [(''id'', JNum 1)]])"
  using sanitizeUser_copy_leaves_original [of 0 "[[(''id'', JNum 1), (''password_hash'', JStr ''x'')]]"]
  by (simp add: sanitizeUser_store_def alloc_def delete_property_def AList.delete_eq)

section \<open>Properties of the two gates\<close>

lemmas demo_defs = demo_env_def demo_libs_def demo_verify_def demo_sign_def demo_hash_def
  demo_compare_def

lemma same_value_zero_primitive: "same_value_zero x v = (primitive v \<and> x = v)"
  by (cases x; cases v) auto

lemma array_includes_member: "array_includes rs v = (primitive v \<and> v \<in> set rs)"
  by (auto simp add: array_includes_def list_ex_iff same_value_zero_primitive)

lemma normalize_roles_array: "normalize_roles (JArr rs) = rs"
  by (simp add: normalize_roles_def)

lemma normalize_roles_single: "\<not> is_array allowed \<Longrightarrow> normalize_roles allowed = [allowed]"
  by (cases allowed) (simp_all add: normalize_roles_def)

text \<open>
  C8. For every request and every configured \<open>allowedRoles\<close>. With no identity attached
  the gate answers 401 \<open>NOT_AUTHENTICATED\<close>. Configured with an array \<open>rs\<close>, and given an
  identity with \<open>roleName\<close> \<open>v\<close>: it calls the next handler exactly when \<open>v\<close> is an
  element of \<open>rs\<close> (and is not itself an array or object), and otherwise answers 403
  \<open>FORBIDDEN\<close> with \<open>requiredRoles\<close> the whole array \<open>rs\<close> and \<open>userRole\<close> \<open>v\<close>, and nothing
  else of the identity. Configured with a single value, it behaves as with the
  one-element array of that value. The request is never changed, and two identities
  with the same \<open>roleName\<close> get the same outcome.
\<close>

theorem authorize_gate:
  "(\<not> truthy (req_user req) \<longrightarrow>
      authorize allowed req = (req, Respond \<lparr>status = 401, json = JObj
        [(''status'', JStr ''error''), (''message'', JStr ''Authentication required''),
         (''code'', JStr ''NOT_AUTHENTICATED'')]\<rparr>))
   \<and> (truthy (req_user req) \<and> own_prop (req_user req) ''roleName'' = v
        \<and> \<not> (primitive v \<and> v \<in> set rs) \<longrightarrow>
      authorize (JArr rs) req = (req, Respond \<lparr>status = 403, json = JObj
        [(''status'', JStr ''error''),
         (''message'', JStr ''Access denied. Insufficient permissions.''),
         (''code'', JStr ''FORBIDDEN''),
         (''requiredRoles'', JArr rs),
         (''userRole'', v)]\<rparr>))
   \<and> (truthy (req_user req) \<and> own_prop (req_user req) ''roleName'' = v
        \<and> primitive v \<and> v \<in> set rs \<longrightarrow>
      authorize (JArr rs) req = (req, CallNext))
   \<and> (truthy (req_user req) \<and> own_prop (req_user req) ''roleName'' = JStr r \<longrightarrow>
      (snd (authorize (JArr rs) req) = CallNext) = (JStr r \<in> set rs))
   \<and> (\<not> is_array allowed \<longrightarrow> authorize allowed req = authorize (JArr [allowed]) req)
   \<and> (truthy (req_user req) \<and> truthy (req_user req')
        \<and> own_prop (req_user req) ''roleName'' = own_prop (req_user req') ''roleName'' \<longrightarrow>
      snd (authorize allowed req) = snd (authorize allowed req'))"
  by (auto simp add: authorize_def Let_def array_includes_member normalize_roles_array
      normalize_roles_single)


theorem authorize_gate_witness:
  "authorize (JArr [JStr ''admin'', JStr ''manager''])
      \<lparr>req_authorization = None, req_body = JNull, req_user = JUndefined\<rparr>
     = (\<lparr>req_authorization = None, req_body = JNull, req_user = JUndefined\<rparr>,
        Respond \<lparr>status = 401, json = JObj
          [(''status'', JStr ''error''), (''message'', JStr ''Authentication required''),
           (''code'', JStr ''NOT_AUTHENTICATED'')]\<rparr>)
   \<and> snd (authorize (JArr [JStr ''admin'', JStr ''manager''])
      \<lparr>req_authorization = None, req_body = JNull,
        req_user = JObj [(''userId'', JNum 7), (''roleName'', JStr ''viewer'')]\<rparr>)
     = Respond \<lparr>status = 403, json = JObj
          [(''status'', JStr ''error''),
           (''message'', JStr ''Access denied. Insufficient permissions.''),
           (''code'', JStr ''FORBIDDEN''),
           (''requiredRoles'', JArr [JStr ''admin'', JStr ''manager'']),
           (''userRole'', JStr ''viewer'')]\<rparr>
   \<and> snd (authorize (JArr [JStr ''admin'', JStr ''manager''])
      \<lparr>req_authorization = None, req_body = JNull,
        req_user = JObj [(''userId'', JNum 1), (''roleName'', JStr ''admin'')]\<rparr>)
     = CallNext
   \<and> snd (authorize (JArr [JStr ''admin'', JStr ''manager''])
      \<lparr>req_authorization = None, req_body = JNull,
        req_user = JObj [(''userId'', JNum 7), (''roleName'', JStr ''viewer'')]\<rparr>)
     = snd (authorize (JArr [JStr ''admin'', JStr ''manager''])
      \<lparr>req_authorization = None, req_body = JNull,
        req_user = JObj [(''userId'', JNum 8), (''email'', JStr ''v@x.org''),
                         (''roleName'', JStr ''viewer'')]\<rparr>)
   \<and> snd (authorize (JArr [JStr ''admin'', JStr ''manager'', JStr ''auditor''])
      \<lparr>req_authorization = None, req_body = JNull,
        req_user = JObj [(''userId'', JNum 9), (''roleName'', JStr ''auditor'')]\<rparr>)
     = CallNext
   \<and> snd (authorize (JArr [JStr ''admin'', JStr ''manager'', JStr ''auditor''])
      \<lparr>req_authorization = None, req_body = JNull,
        req_user = JObj [(''userId'', JNum 7), (''roleName'', JStr ''viewer'')]\<rparr>)
     = Respond \<lparr>status = 403, json = JObj
          [(''status'', JStr ''error''),
           (''message'', JStr ''Access denied. Insufficient permissions.''),
           (''code'', JStr ''FORBIDDEN''),
           (''requiredRoles'', JArr [JStr ''admin'', JStr ''manager'', JStr ''auditor'']),
           (''userRole'', JStr ''viewer'')]\<rparr>
   \<and> snd (authorize (JStr ''admin'')
      \<lparr>req_authorization = None, req_body = JNull,
        req_user = JObj [(''userId'', JNum 1), (''roleName'', JStr ''admin'')]\<rparr>)
     = CallNext
   \<and> snd (authorize (JStr ''admin'')
      \<lparr>req_authorization = None, req_body = JNull,
        req_user = JObj [(''userId'', JNum 7), (''roleName'', JStr ''viewer'')]\<rparr>)
     = Respond \<lparr>status = 403, json = JObj
          [(''status'', JStr ''error''),
           (''message'', JStr ''Access denied. Insufficient permissions.''),
           (''code'', JStr ''FORBIDDEN''),
           (''requiredRoles'', JArr [JStr ''admin'']),
           (''userRole'', JStr ''viewer'')]\<rparr>"
proof -
  let ?two = "[JStr ''admin'', JStr ''manager'']"
  let ?three = "[JStr ''admin'', JStr ''manager'', JStr ''auditor'']"
  let ?anon = "\<lparr>req_authorization = None, req_body = JNull, req_user = JUndefined\<rparr>"
  let ?viewer = "\<lparr>req_authorization = None, req_body = JNull,
        req_user = JObj [(''userId'', JNum 7), (''roleName'', JStr ''viewer'')]\<rparr>"
  let ?viewer' = "\<lparr>req_authorization = None, req_body = JNull,
        req_user = JObj [(''userId'', JNum 8), (''email'', JStr ''v@x.org''),
                         (''roleName'', JStr ''viewer'')]\<rparr>"
  let ?admin = "\<lparr>req_authorization = None, req_body = JNull,
        req_user = JObj [(''userId'', JNum 1), (''roleName'', JStr ''admin'')]\<rparr>"
  let ?auditor = "\<lparr>req_authorization = None, req_body = JNull,
        req_user = JObj [(''userId'', JNum 9), (''roleName'', JStr ''auditor'')]\<rparr>"
  have anon: "\<not> truthy (req_user ?anon)" by simp
  have denied: "truthy (req_user ?viewer)
        \<and> own_prop (req_user ?viewer) ''roleName'' = JStr ''viewer''
        \<and> \<not> (primitive (JStr ''viewer'') \<and> JStr ''viewer'' \<in> set rs)"
    if "rs = ?two \<or> rs = ?three \<or> rs = [JStr ''admin'']" for rs
    using that by auto
  have admin: "truthy (req_user ?admin)
        \<and> own_prop (req_user ?admin) ''roleName'' = JStr ''admin''
        \<and> primitive (JStr ''admin'') \<and> JStr ''admin'' \<in> set rs"
    if "rs = ?two \<or> rs = [JStr ''admin'']" for rs
    using that by auto
  have auditor: "truthy (req_user ?auditor)
        \<and> own_prop (req_user ?auditor) ''roleName'' = JStr ''auditor''
        \<and> primitive (JStr ''auditor'') \<and> JStr ''auditor'' \<in> set ?three"
    by simp
  have same: "truthy (req_user ?viewer) \<and> truthy (req_user ?viewer')
        \<and> own_prop (req_user ?viewer) ''roleName'' = own_prop (req_user ?viewer') ''roleName''"
    by simp
  have single: "\<not> is_array (JStr ''admin'')" by simp
  have c1: "authorize (JArr ?two) ?anon = (?anon, Respond \<lparr>status = 401, json = JObj
          [(''status'', JStr ''error''), (''message'', JStr ''Authentication required''),
           (''code'', JStr ''NOT_AUTHENTICATED'')]\<rparr>)"
    using anon authorize_gate [where req = ?anon and allowed = "JArr ?two"] by blast
  have c2: "authorize (JArr rs) ?viewer = (?viewer, Respond \<lparr>status = 403, json = JObj
        [(''status'', JStr ''error''),
         (''message'', JStr ''Access denied. Insufficient permissions.''),
         (''code'', JStr ''FORBIDDEN''),
         (''requiredRoles'', JArr rs),
         (''userRole'', JStr ''viewer'')]\<rparr>)"
    if "rs = ?two \<or> rs = ?three \<or> rs = [JStr ''admin'']" for rs
    using denied [OF that]
      authorize_gate [where req = ?viewer and rs = rs and v = "JStr ''viewer''"] by blast
  have c3: "authorize (JArr rs) ?admin = (?admin, CallNext)"
    if "rs = ?two \<or> rs = [JStr ''admin'']" for rs
    using admin [OF that]
      authorize_gate [where req = ?admin and rs = rs and v = "JStr ''admin''"] by blast
  have c4: "snd (authorize (JArr ?two) ?viewer) = snd (authorize (JArr ?two) ?viewer')"
    using same authorize_gate [where req = ?viewer and allowed = "JArr ?two" and req' = ?viewer']
    by blast
  have c5: "authorize (JArr ?three) ?auditor = (?auditor, CallNext)"
    using auditor
      authorize_gate [where req = ?auditor and rs = ?three and v = "JStr ''auditor''"] by blast
  have c6: "authorize (JStr ''admin'') req = authorize (JArr [JStr ''admin'']) req" for req
    using single authorize_gate [where req = req and allowed = "JStr ''admin''"] by blast
  show ?thesis
    unfolding c1 c4 [symmetric] c5 c6 by (simp add: c2 c3)
qed

text \<open>
  C7. For every request: when the authorization header is absent or does not start with
  \<open>Bearer \<close> the gate answers 401 \<open>NO_TOKEN\<close> and leaves the request as it was; when the
  bearer token verifies to a payload of type \<open>access\<close> it attaches exactly the six
  fields \<open>userId\<close>, \<open>username\<close>, \<open>email\<close>, \<open>roleId\<close>, \<open>roleName\<close>, \<open>municipalityId\<close> of
  the payload and calls the next handler; when verification throws a
  \<open>TokenExpiredError\<close> it answers \<open>TOKEN_EXPIRED\<close>, and when it throws a
  \<open>JsonWebTokenError\<close> it answers \<open>INVALID_TOKEN\<close>.
\<close>

theorem authenticate_gate:
  "(req_authorization req = None \<or> (req_authorization req = Some h \<and> take 7 h \<noteq> ''Bearer '') \<longrightarrow>
      authenticate en req = (req, Respond \<lparr>status = 401, json = JObj
            [(''status'', JStr ''error''), (''message'', JStr ''Authentication required''),
             (''code'', JStr ''NO_TOKEN'')]\<rparr>))
   \<and> (req_authorization req = Some (''Bearer '' @ t)
        \<and> verifyAccessToken en (JStr t) = Inr decoded
        \<and> own_prop decoded ''type'' = JStr ''access'' \<longrightarrow>
      authenticate en req =
        (req\<lparr>req_user := JObj
            [(''userId'', own_prop decoded ''userId''),
             (''username'', own_prop decoded ''username''),
             (''email'', own_prop decoded ''email''),
             (''roleId'', own_prop decoded ''roleId''),
             (''roleName'', own_prop decoded ''roleName''),
             (''municipalityId'', own_prop decoded ''municipalityId'')]\<rparr>, CallNext)
      \<and> keys_of (req_user (fst (authenticate en req)))
          = [''userId'', ''username'', ''email'', ''roleId'', ''roleName'', ''municipalityId''])
   \<and> (req_authorization req = Some (''Bearer '' @ t)
        \<and> verifyAccessToken en (JStr t) = Inl e \<and> err_name e = ''TokenExpiredError'' \<longrightarrow>
      authenticate en req = (req, Respond \<lparr>status = 401, json = JObj
            [(''status'', JStr ''error''), (''message'', JStr ''Token expired''),
             (''code'', JStr ''TOKEN_EXPIRED'')]\<rparr>))
   \<and> (req_authorization req = Some (''Bearer '' @ t)
        \<and> verifyAccessToken en (JStr t) = Inl e \<and> err_name e = ''JsonWebTokenError'' \<longrightarrow>
      authenticate en req = (req, Respond \<lparr>status = 401, json = JObj
            [(''status'', JStr ''error''), (''message'', JStr ''Invalid token''),
             (''code'', JStr ''INVALID_TOKEN'')]\<rparr>))"
  by (auto simp add: authenticate_def authenticate_try_def bindE_def get_prop_def nullish_def
      keys_of_def)


theorem authenticate_gate_witness:
  "authenticate demo_env \<lparr>req_authorization = None, req_body = JNull, req_user = JUndefined\<rparr>
     = (\<lparr>req_authorization = None, req_body = JNull, req_user = JUndefined\<rparr>,
        Respond \<lparr>status = 401, json = JObj
          [(''status'', JStr ''error''), (''message'', JStr ''Authentication required''),
           (''code'', JStr ''NO_TOKEN'')]\<rparr>)
   \<and> authenticate demo_env
       \<lparr>req_authorization = Some ''Basic YWxpY2U6eA=='', req_body = JNull, req_user = JUndefined\<rparr>
     = (\<lparr>req_authorization = Some ''Basic YWxpY2U6eA=='', req_body = JNull, req_user = JUndefined\<rparr>,
        Respond \<lparr>status = 401, json = JObj
          [(''status'', JStr ''error''), (''message'', JStr ''Authentication required''),
           (''code'', JStr ''NO_TOKEN'')]\<rparr>)
   \<and> authenticate demo_env
       \<lparr>req_authorization = Some ''Bearer access.k'', req_body = JNull, req_user = JUndefined\<rparr>
     = (\<lparr>req_authorization = Some ''Bearer access.k'', req_body = JNull,
         req_user = JObj
           [(''userId'', JNum 1), (''username'', JStr ''alice''),
            (''email'', JStr ''alice@example.org''), (''roleId'', JNum 1),
            (''roleName'', JStr ''admin''), (''municipalityId'', JNull)]\<rparr>, CallNext)
   \<and> snd (authenticate demo_env
       \<lparr>req_authorization = Some ''Bearer old'', req_body = JNull, req_user = JUndefined\<rparr>)
     = Respond \<lparr>status = 401, json = JObj
          [(''status'', JStr ''error''), (''message'', JStr ''Token expired''),
           (''code'', JStr ''TOKEN_EXPIRED'')]\<rparr>
   \<and> snd (authenticate demo_env
       \<lparr>req_authorization = Some ''Bearer junk'', req_body = JNull, req_user = JUndefined\<rparr>)
     = Respond \<lparr>status = 401, json = JObj
          [(''status'', JStr ''error''), (''message'', JStr ''Invalid token''),
           (''code'', JStr ''INVALID_TOKEN'')]\<rparr>"
proof -
  let ?absent = "\<lparr>req_authorization = None, req_body = JNull, req_user = JUndefined\<rparr>"
  let ?basic = "\<lparr>req_authorization = Some ''Basic YWxpY2U6eA=='', req_body = JNull,
                  req_user = JUndefined\<rparr>"
  let ?good = "\<lparr>req_authorization = Some ''Bearer access.k'', req_body = JNull,
                 req_user = JUndefined\<rparr>"
  let ?old = "\<lparr>req_authorization = Some ''Bearer old'', req_body = JNull,
                req_user = JUndefined\<rparr>"
  let ?junk = "\<lparr>req_authorization = Some ''Bearer junk'', req_body = JNull,
                 req_user = JUndefined\<rparr>"
  let ?decoded = "JObj
                 [(''userId'', JNum 1), (''username'', JStr ''alice''),
                  (''email'', JStr ''alice@example.org''), (''roleId'', JNum 1),
                  (''roleName'', JStr ''admin''), (''municipalityId'', JNull),
                  (''type'', JStr ''access''), (''iat'', JNum 100), (''exp'', JNum 1000)]"
  have h1: "req_authorization ?absent = None" by simp
  have h2: "req_authorization ?basic = Some ''Basic YWxpY2U6eA==''
            \<and> take 7 ''Basic YWxpY2U6eA=='' \<noteq> ''Bearer ''" by simp
  have h3: "req_authorization ?good = Some (''Bearer '' @ ''access.k'')
            \<and> verifyAccessToken demo_env (JStr ''access.k'') = Inr ?decoded
            \<and> own_prop ?decoded ''type'' = JStr ''access''"
    by (simp add: verifyAccessToken_def demo_defs)
  have h4: "req_authorization ?old = Some (''Bearer '' @ ''old'')
            \<and> verifyAccessToken demo_env (JStr ''old'')
                = Inl (JsError ''TokenExpiredError'' ''jwt expired'')
            \<and> err_name (JsError ''TokenExpiredError'' ''jwt expired'') = ''TokenExpiredError''"
    by (simp add: verifyAccessToken_def demo_defs)
  have h5: "req_authorization ?junk = Some (''Bearer '' @ ''junk'')
            \<and> verifyAccessToken demo_env (JStr ''junk'')
                = Inl (JsError ''JsonWebTokenError'' ''jwt malformed'')
            \<and> err_name (JsError ''JsonWebTokenError'' ''jwt malformed'') = ''JsonWebTokenError''"
    by (simp add: verifyAccessToken_def demo_defs)
  note c1 = authenticate_gate [where req = ?absent and en = demo_env, THEN conjunct1, rule_format,
      OF disjI1, OF h1]
  note c2 = authenticate_gate [where req = ?basic and en = demo_env
      and h = "''Basic YWxpY2U6eA==''", THEN conjunct1, rule_format, OF disjI2, OF h2]
  note c3 = authenticate_gate [where req = ?good and en = demo_env and t = "''access.k''"
      and decoded = ?decoded, THEN conjunct2, THEN conjunct1, rule_format, OF h3, THEN conjunct1]
  note c4 = authenticate_gate [where req = ?old and en = demo_env and t = "''old''"
      and e = "JsError ''TokenExpiredError'' ''jwt expired''",
      THEN conjunct2, THEN conjunct2, THEN conjunct1, rule_format, OF h4]
  note c5 = authenticate_gate [where req = ?junk and en = demo_env and t = "''junk''"
      and e = "JsError ''JsonWebTokenError'' ''jwt malformed''",
      THEN conjunct2, THEN conjunct2, THEN conjunct2, rule_format, OF h5]
  show ?thesis
    unfolding c1 c2 c3 c4 c5 by simp
qed

section \<open>Properties of the authentication service\<close>

lemma first_or_null_rows:
  "first_or_null rows = (case rows of [] \<Rightarrow> JNull | row # _ \<Rightarrow> if truthy row then row else JNull)"
  by (simp add: first_or_null_def js_or_def split: list.splits)

lemma db_record_call [simp]: "db (record_call c w) = db w"
  by (simp add: record_call_def)

lemma calls_record_call [simp]: "calls (record_call c w) = calls w @ [c]"
  by (simp add: record_call_def)

lemma new_calls_append [simp]: "calls w' = calls w @ cs \<Longrightarrow> new_calls w w' = cs"
  by (simp add: new_calls_def)

lemmas async_defs = await_def resolve_def reject_def sync_def

lemmas repository_defs = findByEmail_def findByUsername_def findById_def emailExists_def
  usernameExists_def updateLastLogin_def

text \<open>The two lookups at the head of login, as one step.\<close>

lemma login_inactive:
  assumes "login_lookup (db w) l = u" and "truthy u" and "\<not> truthy (own_prop u ''is_active'')"
  shows "fst (login en l p w) = Inl (Error ''Account is inactive'')"
    and "db (snd (login en l p w)) = db w"
    and "new_calls w (snd (login en l p w)) =
          (if truthy (first_or_null (rows_findByEmail (db w) l))
           then [FindByEmail l] else [FindByEmail l, FindByUsername l])"
  using assms
  by (auto simp add: login_def login_lookup_def Let_def async_defs repository_defs)

text \<open>
  C3. For every login whose identifier resolves to a stored user whose \<open>is_active\<close> is
  falsy, whatever the password and whatever the libraries do, \<open>login\<close> rejects with
  \<open>Account is inactive\<close>; the run makes only the one or two lookups, so the password
  comparison is never called, and the store is unchanged.
\<close>

theorem login_inactive_account:
  "login_lookup (db w) l = u \<and> truthy u \<and> \<not> truthy (own_prop u ''is_active'') \<longrightarrow>
     fst (login en l p w) = Inl (Error ''Account is inactive'')
   \<and> db (snd (login en l p w)) = db w
   \<and> new_calls w (snd (login en l p w)) =
        (if truthy (first_or_null (rows_findByEmail (db w) l))
         then [FindByEmail l] else [FindByEmail l, FindByUsername l])
   \<and> (\<forall>c \<in> set (new_calls w (snd (login en l p w))). \<not> is_compare c)"
  using login_inactive [of w l u en p] by auto

lemmas store_defs = rows_findByEmail_def rows_findByUsername_def rows_findById_def
  rows_emailExists_def rows_usernameExists_def left_join_roles_def sql_eq_def sql_param_def
  is_null_def select_with_hash_def select_without_hash_def first_or_null_def js_or_def

lemmas demo_store_defs = demo_world_def demo_db_def alice_def bob_def

lemma demo_lookup_bob:
  "login_lookup demo_db (JStr ''bob'') = JObj
     [(''id'', JNum 2), (''username'', JStr ''bob''), (''email'', JStr ''bob@example.org''),
      (''password_hash'', JStr ''$2b$builder''), (''role_id'', JNum 5),
      (''municipality_id'', JNum 3),
      (''first_name'', JNull), (''last_name'', JNull), (''phone'', JNull),
      (''profile_image_url'', JNull), (''is_active'', JBool False),
      (''last_login'', JNull), (''email_verified'', JBool False),
      (''created_at'', JStr ''2024-01-02''), (''updated_at'', JStr ''2024-01-02''),
      (''role_name'', JStr ''viewer''), (''permissions'', JObj [])]"
  by (simp add: login_lookup_def store_defs demo_store_defs)


lemma login_wrong_password:
  assumes "login_lookup (db w) l = u" and "truthy u" and "truthy (own_prop u ''is_active'')"
    and "bcrypt_compare (libs en) p (own_prop u ''password_hash'') = Inr False"
  shows "fst (login en l p w) = Inl (Error ''Invalid credentials'')"
  using assms
  by (auto simp add: login_def login_lookup_def Let_def async_defs repository_defs
      comparePassword_def)

lemma login_unknown:
  assumes "\<not> truthy (login_lookup (db w) l)"
  shows "fst (login en l p w) = Inl (Error ''Invalid credentials'')"
  using assms
  by (auto simp add: login_def login_lookup_def Let_def async_defs repository_defs
      split: if_splits)

lemma controller_login_rejected:
  assumes "\<not> nullish (req_body req)"
    and "truthy (own_prop (req_body req) ''login'')"
    and "truthy (own_prop (req_body req) ''password'')"
    and "fst (login en (sanitizeInput (own_prop (req_body req) ''login''))
                (own_prop (req_body req) ''password'') w) = Inl (Error ''Invalid credentials'')"
  shows "fst (controller_login en req w) = \<lparr>status = 401, json = JObj
            [(''status'', JStr ''error''), (''message'', JStr ''Invalid credentials''),
             (''code'', JStr ''AUTHENTICATION_FAILED'')]\<rparr>"
  using assms
  by (auto simp add: controller_login_def login_try_def Let_def async_defs Error_def
      split: prod.splits sum.splits)

text \<open>
  The two failures the code does answer alike: a login whose identifier resolves to an
  active user and whose password the comparison returns false for, and a login whose
  identifier resolves to no user, both reject with \<open>Invalid credentials\<close>, and the login
  handler answers both with the same 401 response.
\<close>

lemma login_failures_alike:
  "(login_lookup (db w1) l1 = u \<and> truthy u \<and> truthy (own_prop u ''is_active'')
      \<and> bcrypt_compare (libs en) p1 (own_prop u ''password_hash'') = Inr False
      \<and> \<not> truthy (login_lookup (db w2) l2) \<longrightarrow>
        fst (login en l1 p1 w1) = Inl (Error ''Invalid credentials'')
      \<and> fst (login en l2 p2 w2) = Inl (Error ''Invalid credentials''))
   \<and> (\<not> nullish (req_body req1)
      \<and> truthy (own_prop (req_body req1) ''login'')
      \<and> truthy (own_prop (req_body req1) ''password'')
      \<and> login_lookup (db w1) (sanitizeInput (own_prop (req_body req1) ''login'')) = u
      \<and> truthy u \<and> truthy (own_prop u ''is_active'')
      \<and> bcrypt_compare (libs en) (own_prop (req_body req1) ''password'')
            (own_prop u ''password_hash'') = Inr False
      \<and> \<not> nullish (req_body req2)
      \<and> truthy (own_prop (req_body req2) ''login'')
      \<and> truthy (own_prop (req_body req2) ''password'')
      \<and> \<not> truthy (login_lookup (db w2) (sanitizeInput (own_prop (req_body req2) ''login''))) \<longrightarrow>
        fst (controller_login en req1 w1) = \<lparr>status = 401, json = JObj
            [(''status'', JStr ''error''), (''message'', JStr ''Invalid credentials''),
             (''code'', JStr ''AUTHENTICATION_FAILED'')]\<rparr>
      \<and> fst (controller_login en req2 w2) = fst (controller_login en req1 w1))"
  using login_wrong_password login_unknown controller_login_rejected
  by simp

lemma login_compare_throws:
  assumes "login_lookup (db w) l = u" and "truthy u" and "truthy (own_prop u ''is_active'')"
    and "bcrypt_compare (libs en) p (own_prop u ''password_hash'') = Inl e"
  shows "fst (login en l p w) = Inl e"
  using assms
  by (auto simp add: login_def login_lookup_def Let_def async_defs repository_defs
      comparePassword_def)

lemma controller_login_error:
  assumes "\<not> nullish (req_body req)"
    and "truthy (own_prop (req_body req) ''login'')"
    and "truthy (own_prop (req_body req) ''password'')"
    and "fst (login en (sanitizeInput (own_prop (req_body req) ''login''))
                (own_prop (req_body req) ''password'') w) = Inl e"
    and "err_message e \<noteq> ''Invalid credentials''"
    and "err_message e \<noteq> ''Account is inactive''"
  shows "fst (controller_login en req w) = \<lparr>status = 500, json = JObj
            [(''status'', JStr ''error''), (''message'', JStr ''Login failed''),
             (''code'', JStr ''LOGIN_ERROR'')]\<rparr>"
  using assms
  by (auto simp add: controller_login_def login_try_def Let_def async_defs
      split: prod.splits sum.splits)

text \<open>
  C2, at a password that is not a string. The login handler tests only that
  \<open>password\<close> is truthy, so a
  password that is not a string reaches the comparison. When the comparison rejects
  it (as \<open>bcrypt.compare\<close> does for data that is not a string) with an error whose
  message is neither \<open>Invalid credentials\<close> nor \<open>Account is inactive\<close>, a login whose
  identifier resolves to an active user is answered 500 \<open>LOGIN_ERROR\<close>, while a login
  whose identifier resolves to no user is answered 401 \<open>AUTHENTICATION_FAILED\<close> with
  the same password: the two responses differ, and tell a known user from an unknown one.
\<close>

theorem login_nonstring_password_reveals_user:
  "\<not> nullish (req_body req1)
   \<and> truthy (own_prop (req_body req1) ''login'')
   \<and> truthy (own_prop (req_body req1) ''password'')
   \<and> login_lookup (db w1) (sanitizeInput (own_prop (req_body req1) ''login'')) = u
   \<and> truthy u \<and> truthy (own_prop u ''is_active'')
   \<and> bcrypt_compare (libs en) (own_prop (req_body req1) ''password'')
         (own_prop u ''password_hash'') = Inl e
   \<and> err_message e \<noteq> ''Invalid credentials'' \<and> err_message e \<noteq> ''Account is inactive''
   \<and> \<not> nullish (req_body req2)
   \<and> truthy (own_prop (req_body req2) ''login'')
   \<and> truthy (own_prop (req_body req2) ''password'')
   \<and> \<not> truthy (login_lookup (db w2) (sanitizeInput (own_prop (req_body req2) ''login'')))
   \<longrightarrow>
     fst (controller_login en req1 w1) = \<lparr>status = 500, json = JObj
            [(''status'', JStr ''error''), (''message'', JStr ''Login failed''),
             (''code'', JStr ''LOGIN_ERROR'')]\<rparr>
   \<and> fst (controller_login en req2 w2) = \<lparr>status = 401, json = JObj
            [(''status'', JStr ''error''), (''message'', JStr ''Invalid credentials''),
             (''code'', JStr ''AUTHENTICATION_FAILED'')]\<rparr>
   \<and> fst (controller_login en req1 w1) \<noteq> fst (controller_login en req2 w2)"
proof (intro impI)
  assume h: "\<not> nullish (req_body req1)
   \<and> truthy (own_prop (req_body req1) ''login'')
   \<and> truthy (own_prop (req_body req1) ''password'')
   \<and> login_lookup (db w1) (sanitizeInput (own_prop (req_body req1) ''login'')) = u
   \<and> truthy u \<and> truthy (own_prop u ''is_active'')
   \<and> bcrypt_compare (libs en) (own_prop (req_body req1) ''password'')
         (own_prop u ''password_hash'') = Inl e
   \<and> err_message e \<noteq> ''Invalid credentials'' \<and> err_message e \<noteq> ''Account is inactive''
   \<and> \<not> nullish (req_body req2)
   \<and> truthy (own_prop (req_body req2) ''login'')
   \<and> truthy (own_prop (req_body req2) ''password'')
   \<and> \<not> truthy (login_lookup (db w2) (sanitizeInput (own_prop (req_body req2) ''login'')))"
  then have known: "fst (login en (sanitizeInput (own_prop (req_body req1) ''login''))
                (own_prop (req_body req1) ''password'') w1) = Inl e"
    using login_compare_throws by blast
  from h have unknown: "fst (login en (sanitizeInput (own_prop (req_body req2) ''login''))
                (own_prop (req_body req2) ''password'') w2) = Inl (Error ''Invalid credentials'')"
    using login_unknown by blast
  have r1: "fst (controller_login en req1 w1) = \<lparr>status = 500, json = JObj
            [(''status'', JStr ''error''), (''message'', JStr ''Login failed''),
             (''code'', JStr ''LOGIN_ERROR'')]\<rparr>"
    using h known controller_login_error [of req1 en w1 e] by blast
  have r2: "fst (controller_login en req2 w2) = \<lparr>status = 401, json = JObj
            [(''status'', JStr ''error''), (''message'', JStr ''Invalid credentials''),
             (''code'', JStr ''AUTHENTICATION_FAILED'')]\<rparr>"
    using h unknown controller_login_rejected [of req2 en w2] by blast
  show "fst (controller_login en req1 w1) = \<lparr>status = 500, json = JObj
            [(''status'', JStr ''error''), (''message'', JStr ''Login failed''),
             (''code'', JStr ''LOGIN_ERROR'')]\<rparr>
   \<and> fst (controller_login en req2 w2) = \<lparr>status = 401, json = JObj
            [(''status'', JStr ''error''), (''message'', JStr ''Invalid credentials''),
             (''code'', JStr ''AUTHENTICATION_FAILED'')]\<rparr>
   \<and> fst (controller_login en req1 w1) \<noteq> fst (controller_login en req2 w2)"
    unfolding r1 r2 by simp
qed

lemma register_duplicate_email:
  assumes "\<not> nullish userData"
    and "rows_emailExists (db w) (own_prop userData ''email'') \<noteq> []"
  shows "fst (register en userData w) = Inl (Error ''Email already registered'')"
    and "db (snd (register en userData w)) = db w"
    and "new_calls w (snd (register en userData w)) =
          [EmailExists (own_prop userData ''email''),
           UsernameExists (own_prop userData ''username'')]"
  using assms
  by (auto simp add: register_def Let_def async_defs repository_defs)

lemma register_duplicate_username:
  assumes "\<not> nullish userData"
    and "rows_emailExists (db w) (own_prop userData ''email'') = []"
    and "rows_usernameExists (db w) (own_prop userData ''username'') \<noteq> []"
  shows "fst (register en userData w) = Inl (Error ''Username already taken'')"
  using assms
  by (auto simp add: register_def Let_def async_defs repository_defs)

text \<open>
  C5. For every register call whose email matches a row that is not soft-deleted,
  \<open>register\<close> rejects with \<open>Email already registered\<close>, whether or not the username is
  taken as well; the run makes the two existence checks only (no password hashing, no
  create, no other write) and leaves the store unchanged. \<open>Username already taken\<close> is
  the rejection when the username is taken and the email is not.
\<close>

theorem register_duplicate_email_first:
  "(\<not> nullish userData \<and> rows_emailExists (db w) (own_prop userData ''email'') \<noteq> [] \<longrightarrow>
      fst (register en userData w) = Inl (Error ''Email already registered'')
    \<and> db (snd (register en userData w)) = db w
    \<and> new_calls w (snd (register en userData w)) =
          [EmailExists (own_prop userData ''email''),
           UsernameExists (own_prop userData ''username'')]
    \<and> (\<forall>c \<in> set (new_calls w (snd (register en userData w))). \<not> is_write c \<and> \<not> is_hash c))
   \<and> (\<not> nullish userData \<and> rows_emailExists (db w) (own_prop userData ''email'') = []
        \<and> rows_usernameExists (db w) (own_prop userData ''username'') \<noteq> [] \<longrightarrow>
      fst (register en userData w) = Inl (Error ''Username already taken''))"
  using register_duplicate_email [of userData w en] register_duplicate_username [of userData w en]
  by simp


theorem login_inactive_account_witness:
  "demo_compare (JStr ''builder'') (JStr ''$2b$builder'') = Inr True
   \<and> fst (login demo_env (JStr ''bob'') (JStr ''builder'') demo_world)
       = Inl (Error ''Account is inactive'')
   \<and> new_calls demo_world (snd (login demo_env (JStr ''bob'') (JStr ''builder'') demo_world))
       = [FindByEmail (JStr ''bob''), FindByUsername (JStr ''bob'')]"
proof -
  let ?u = "login_lookup demo_db (JStr ''bob'')"
  have hyp: "login_lookup (db demo_world) (JStr ''bob'') = ?u \<and> truthy ?u
             \<and> \<not> truthy (own_prop ?u ''is_active'')"
    unfolding demo_lookup_bob by (simp add: demo_world_def demo_lookup_bob)
  have by_email: "first_or_null (rows_findByEmail (db demo_world) (JStr ''bob'')) = JNull"
    by (simp add: store_defs demo_store_defs)
  from login_inactive_account [where w = demo_world and l = "JStr ''bob''" and u = ?u
      and en = demo_env and p = "JStr ''builder''", rule_format, OF hyp] by_email
  show ?thesis
    by (simp add: demo_compare_def)
qed

lemma demo_lookup_alice:
  "login_lookup demo_db (JStr ''alice'') = JObj
     [(''id'', JNum 1), (''username'', JStr ''alice''), (''email'', JStr ''alice@example.org''),
      (''password_hash'', JStr ''$2b$wonderland''), (''role_id'', JNum 1),
      (''municipality_id'', JNull),
      (''first_name'', JStr ''Alice''), (''last_name'', JNull), (''phone'', JNull),
      (''profile_image_url'', JNull), (''is_active'', JBool True),
      (''last_login'', JNull), (''email_verified'', JBool True),
      (''created_at'', JStr ''2024-01-01''), (''updated_at'', JStr ''2024-01-01''),
      (''role_name'', JStr ''admin''), (''permissions'', JObj [])]"
  by (simp add: login_lookup_def store_defs demo_store_defs)

lemma demo_lookup_mallory: "login_lookup demo_db (JStr ''mallory'') = JNull"
  by (simp add: login_lookup_def store_defs demo_store_defs)

lemma trim_plain [simp]: "trim ''alice'' = ''alice''" "trim ''mallory'' = ''mallory''"
  by (simp_all add: trim_def js_whitespace_def)

lemma login_failures_alike_example:
  "fst (login demo_env (JStr ''alice'') (JStr ''guess'') demo_world)
     = Inl (Error ''Invalid credentials'')
   \<and> fst (login demo_env (JStr ''mallory'') (JStr ''guess'') demo_world)
     = Inl (Error ''Invalid credentials'')
   \<and> fst (controller_login demo_env
        \<lparr>req_authorization = None,
          req_body = JObj [(''login'', JStr ''alice''), (''password'', JStr ''guess'')],
          req_user = JUndefined\<rparr> demo_world)
     = \<lparr>status = 401, json = JObj
          [(''status'', JStr ''error''), (''message'', JStr ''Invalid credentials''),
           (''code'', JStr ''AUTHENTICATION_FAILED'')]\<rparr>
   \<and> fst (controller_login demo_env
        \<lparr>req_authorization = None,
          req_body = JObj [(''login'', JStr ''mallory''), (''password'', JStr ''guess'')],
          req_user = JUndefined\<rparr> demo_world)
     = \<lparr>status = 401, json = JObj
          [(''status'', JStr ''error''), (''message'', JStr ''Invalid credentials''),
           (''code'', JStr ''AUTHENTICATION_FAILED'')]\<rparr>"
proof -
  let ?u = "login_lookup demo_db (JStr ''alice'')"
  let ?req1 = "\<lparr>req_authorization = None,
          req_body = JObj [(''login'', JStr ''alice''), (''password'', JStr ''guess'')],
          req_user = JUndefined\<rparr>"
  let ?req2 = "\<lparr>req_authorization = None,
          req_body = JObj [(''login'', JStr ''mallory''), (''password'', JStr ''guess'')],
          req_user = JUndefined\<rparr>"
  have service: "login_lookup (db demo_world) (JStr ''alice'') = ?u \<and> truthy ?u
      \<and> truthy (own_prop ?u ''is_active'')
      \<and> bcrypt_compare (libs demo_env) (JStr ''guess'') (own_prop ?u ''password_hash'')
          = Inr False
      \<and> \<not> truthy (login_lookup (db demo_world) (JStr ''mallory''))"
    unfolding demo_lookup_alice
    by (simp add: demo_world_def demo_lookup_alice demo_lookup_mallory demo_defs)
  have outward: "\<not> nullish (req_body ?req1)
      \<and> truthy (own_prop (req_body ?req1) ''login'')
      \<and> truthy (own_prop (req_body ?req1) ''password'')
      \<and> login_lookup (db demo_world) (sanitizeInput (own_prop (req_body ?req1) ''login'')) = ?u
      \<and> truthy ?u \<and> truthy (own_prop ?u ''is_active'')
      \<and> bcrypt_compare (libs demo_env) (own_prop (req_body ?req1) ''password'')
            (own_prop ?u ''password_hash'') = Inr False
      \<and> \<not> nullish (req_body ?req2)
      \<and> truthy (own_prop (req_body ?req2) ''login'')
      \<and> truthy (own_prop (req_body ?req2) ''password'')
      \<and> \<not> truthy (login_lookup (db demo_world)
               (sanitizeInput (own_prop (req_body ?req2) ''login'')))"
    unfolding demo_lookup_alice
    by (simp add: demo_world_def demo_lookup_alice demo_lookup_mallory demo_defs nullish_def
        sanitizeInput_def)
  note inst = login_failures_alike [where ?w1.0 = demo_world and ?w2.0 = demo_world
      and ?l1.0 = "JStr ''alice''" and ?l2.0 = "JStr ''mallory''" and u = ?u and en = demo_env
      and ?p1.0 = "JStr ''guess''" and ?p2.0 = "JStr ''guess''"
      and ?req1.0 = ?req1 and ?req2.0 = ?req2]
  from inst [THEN conjunct1, rule_format, OF service] inst [THEN conjunct2, rule_format, OF outward]
  show ?thesis
    by simp
qed

theorem login_nonstring_password_reveals_user_witness:
  "fst (controller_login demo_env
        \<lparr>req_authorization = None,
          req_body = JObj [(''login'', JStr ''alice''), (''password'', JNum 12345)],
          req_user = JUndefined\<rparr> demo_world)
     = \<lparr>status = 500, json = JObj
          [(''status'', JStr ''error''), (''message'', JStr ''Login failed''),
           (''code'', JStr ''LOGIN_ERROR'')]\<rparr>
   \<and> fst (controller_login demo_env
        \<lparr>req_authorization = None,
          req_body = JObj [(''login'', JStr ''mallory''), (''password'', JNum 12345)],
          req_user = JUndefined\<rparr> demo_world)
     = \<lparr>status = 401, json = JObj
          [(''status'', JStr ''error''), (''message'', JStr ''Invalid credentials''),
           (''code'', JStr ''AUTHENTICATION_FAILED'')]\<rparr>"
proof -
  let ?u = "login_lookup demo_db (JStr ''alice'')"
  let ?e = "Error ''data and hash must be strings''"
  let ?req1 = "\<lparr>req_authorization = None,
          req_body = JObj [(''login'', JStr ''alice''), (''password'', JNum 12345)],
          req_user = JUndefined\<rparr>"
  let ?req2 = "\<lparr>req_authorization = None,
          req_body = JObj [(''login'', JStr ''mallory''), (''password'', JNum 12345)],
          req_user = JUndefined\<rparr>"
  have hyp: "\<not> nullish (req_body ?req1)
      \<and> truthy (own_prop (req_body ?req1) ''login'')
      \<and> truthy (own_prop (req_body ?req1) ''password'')
      \<and> login_lookup (db demo_world) (sanitizeInput (own_prop (req_body ?req1) ''login'')) = ?u
      \<and> truthy ?u \<and> truthy (own_prop ?u ''is_active'')
      \<and> bcrypt_compare (libs demo_env) (own_prop (req_body ?req1) ''password'')
            (own_prop ?u ''password_hash'') = Inl ?e
      \<and> err_message ?e \<noteq> ''Invalid credentials'' \<and> err_message ?e \<noteq> ''Account is inactive''
      \<and> \<not> nullish (req_body ?req2)
      \<and> truthy (own_prop (req_body ?req2) ''login'')
      \<and> truthy (own_prop (req_body ?req2) ''password'')
      \<and> \<not> truthy (login_lookup (db demo_world)
               (sanitizeInput (own_prop (req_body ?req2) ''login'')))"
    unfolding demo_lookup_alice
    by (simp add: demo_world_def demo_lookup_alice demo_lookup_mallory demo_defs nullish_def
        sanitizeInput_def Error_def)
  from login_nonstring_password_reveals_user [where ?w1.0 = demo_world and ?w2.0 = demo_world
      and u = ?u and en = demo_env and e = ?e and ?req1.0 = ?req1 and ?req2.0 = ?req2,
      rule_format, OF hyp]
  show ?thesis
    by simp
qed

theorem register_duplicate_email_first_witness:
  "rows_usernameExists (db demo_world) (JStr ''alice'') \<noteq> []
   \<and> fst (register demo_env
        (JObj [(''username'', JStr ''alice''), (''email'', JStr ''alice@example.org''),
               (''password'', JStr ''longenough'')]) demo_world)
     = Inl (Error ''Email already registered'')
   \<and> snd (register demo_env
        (JObj [(''username'', JStr ''alice''), (''email'', JStr ''alice@example.org''),
               (''password'', JStr ''longenough'')]) demo_world)
     = \<lparr>db = demo_db,
        calls = [EmailExists (JStr ''alice@example.org''), UsernameExists (JStr ''alice'')]\<rparr>
   \<and> fst (register demo_env
        (JObj [(''username'', JStr ''alice''), (''email'', JStr ''fresh@example.org''),
               (''password'', JStr ''longenough'')]) demo_world)
     = Inl (Error ''Username already taken'')"
proof -
  let ?both = "JObj [(''username'', JStr ''alice''), (''email'', JStr ''alice@example.org''),
               (''password'', JStr ''longenough'')]"
  let ?name = "JObj [(''username'', JStr ''alice''), (''email'', JStr ''fresh@example.org''),
               (''password'', JStr ''longenough'')]"
  have h1: "\<not> nullish ?both \<and> rows_emailExists (db demo_world) (own_prop ?both ''email'') \<noteq> []"
    by (simp add: nullish_def store_defs demo_store_defs)
  have h2: "\<not> nullish ?name \<and> rows_emailExists (db demo_world) (own_prop ?name ''email'') = []
        \<and> rows_usernameExists (db demo_world) (own_prop ?name ''username'') \<noteq> []"
    by (simp add: nullish_def store_defs demo_store_defs)
  have h3: "rows_usernameExists (db demo_world) (JStr ''alice'') \<noteq> []"
    by (simp add: store_defs demo_store_defs)
  have eq: "\<And>w'. db w' = db demo_world \<Longrightarrow> new_calls demo_world w' = cs \<Longrightarrow>
              w' = \<lparr>db = demo_db, calls = cs\<rparr>" for cs
    by (simp add: demo_world_def new_calls_def)
  note c1 = register_duplicate_email_first [where userData = ?both and w = demo_world
      and en = demo_env, THEN conjunct1, rule_format, OF h1]
  note c2 = register_duplicate_email_first [where userData = ?name and w = demo_world
      and en = demo_env, THEN conjunct2, rule_format, OF h2]
  from c1 have "snd (register demo_env ?both demo_world)
     = \<lparr>db = demo_db,
        calls = [EmailExists (JStr ''alice@example.org''), UsernameExists (JStr ''alice'')]\<rparr>"
    by (intro eq) simp_all
  with c1 c2 h3 show ?thesis
    by simp
qed

section \<open>Properties of registration, refresh and the outward identity\<close>

lemma falsy_values: "(\<not> truthy v) = (v \<in> {JUndefined, JNull, JBool False, JNum 0, JStr []})"
  by (cases v) auto

lemma js_or_not_undefined: "b \<noteq> JUndefined \<Longrightarrow> js_or a b \<noteq> JUndefined"
  by (cases a) (auto simp add: js_or_def)

lemma preserves_db_await:
  "preserves_db m \<Longrightarrow> (\<And>x. preserves_db (f x)) \<Longrightarrow> preserves_db (await m f)"
  by (auto simp add: preserves_db_def await_def split: prod.splits sum.splits)
    (metis snd_conv)+

lemma preserves_db_if:
  "preserves_db a \<Longrightarrow> preserves_db b \<Longrightarrow> preserves_db (if c then a else b)"
  by simp

lemma preserves_db_basic:
  "preserves_db (resolve x)" "preserves_db (reject e)" "preserves_db (sync r)"
  "preserves_db (findById i)" "preserves_db (findByEmail l)" "preserves_db (findByUsername l)"
  "preserves_db (emailExists l)" "preserves_db (usernameExists l)"
  "preserves_db (hashPassword en p)" "preserves_db (comparePassword en p h)"
  by (simp_all add: preserves_db_def async_defs repository_defs hashPassword_def
      comparePassword_def)

lemmas preserves_db_intros = preserves_db_await preserves_db_if preserves_db_basic

lemma preserves_dbD: "preserves_db m \<Longrightarrow> db (snd (m w)) = db w"
  by (simp add: preserves_db_def)

lemma await_emailExists:
  "await (emailExists e) f w
     = f (rows_emailExists (db w) e \<noteq> []) (record_call (EmailExists e) w)"
  by (simp add: await_def emailExists_def)

lemma await_usernameExists:
  "await (usernameExists e) f w
     = f (rows_usernameExists (db w) e \<noteq> []) (record_call (UsernameExists e) w)"
  by (simp add: await_def usernameExists_def)

lemma await_hashPassword:
  "await (hashPassword en p) f w =
     (case bcrypt_hash (libs en) p (saltRounds (authConfig en)) of
        Inl e \<Rightarrow> (Inl e, record_call (HashPassword p) w)
      | Inr h \<Rightarrow> f h (record_call (HashPassword p) w))"
  by (simp add: await_def hashPassword_def split: sum.splits)

lemma await_create:
  "await (create (JObj kvs)) f w =
     (let row = insert_user (db w)
            [own_prop (JObj kvs) ''username'', own_prop (JObj kvs) ''email'',
             own_prop (JObj kvs) ''passwordHash'', own_prop (JObj kvs) ''roleId'',
             js_or (own_prop (JObj kvs) ''municipalityId'') JNull,
             js_or (own_prop (JObj kvs) ''firstName'') JNull,
             js_or (own_prop (JObj kvs) ''lastName'') JNull,
             js_or (own_prop (JObj kvs) ''phone'') JNull]
      in f (returning row)
           (record_call (Create (JObj kvs))
              (w\<lparr>db := (db w)\<lparr>users := users (db w) @ [row], next_id := next_id (db w) + 1\<rparr>\<rparr>)))"
  by (simp add: await_def create_def nullish_def Let_def)

lemma register_persists:
  assumes "\<not> nullish userData"
    and "rows_emailExists (db w) (own_prop userData ''email'') = []"
    and "rows_usernameExists (db w) (own_prop userData ''username'') = []"
    and "bcrypt_hash (libs en) (own_prop userData ''password'') (saltRounds (authConfig en)) = Inr h"
  shows "map u_role_id (users (db (snd (register en userData w))))
          = map u_role_id (users (db w)) @ [js_or (own_prop userData ''roleId'') (JNum 5)]"
proof -
  have tail: "preserves_db (await (sync r) (\<lambda>user_id.
            await (findById user_id) (\<lambda>fullUser.
            await (sync (generateAccessToken en fullUser)) (\<lambda>accessToken.
            await (sync (generateRefreshToken en fullUser)) (\<lambda>refreshToken.
              resolve (JObj
                [(''user'', sanitizeUser fullUser), (''accessToken'', accessToken),
                 (''refreshToken'', refreshToken)]))))))" for r
    by (intro preserves_db_intros)
  show ?thesis
    using assms js_or_not_undefined [of "JNum 5" "own_prop userData ''roleId''"]
    by (simp add: register_def Let_def await_emailExists await_usernameExists
        await_hashPassword await_create preserves_dbD [OF tail] insert_user_def sql_param_def)
qed


lemma await_sync:
  "await (sync r) f w = (case r of Inl e \<Rightarrow> (Inl e, w) | Inr x \<Rightarrow> f x w)"
  by (simp add: await_def sync_def split: sum.splits)

lemma await_findById:
  "await (findById i) f w
     = f (first_or_null (rows_findById (db w) i)) (record_call (FindById i) w)"
  by (simp add: await_def findById_def)

lemma own_prop_nullish: "nullish v \<Longrightarrow> own_prop v k = JUndefined"
  by (auto simp add: nullish_def)

lemma refreshToken_run:
  assumes "verifyRefreshToken en tok = Inr decoded"
    and "own_prop decoded ''type'' = JStr ''refresh''"
  shows "refreshToken en tok w =
     (let u = first_or_null (rows_findById (db w) (own_prop decoded ''userId'')) in
      (if \<not> truthy u then Inl (Error ''User not found'')
       else if \<not> truthy (own_prop u ''is_active'') then Inl (Error ''Account is inactive'')
       else (case generateAccessToken en u of Inl e \<Rightarrow> Inl e
             | Inr t \<Rightarrow> Inr (JObj [(''accessToken'', t)])),
       record_call (FindById (own_prop decoded ''userId'')) w))"
proof -
  have "\<not> nullish decoded"
    using assms(2) own_prop_nullish [of decoded "''type''"] by auto
  then show ?thesis
    using assms
    by (simp add: refreshToken_def await_sync await_findById get_prop_def Let_def reject_def
        resolve_def split: sum.splits)
qed

lemma resolves_only_await:
  "resolves_only m Q \<Longrightarrow> (\<And>x. Q x \<Longrightarrow> resolves_only (f x) P) \<Longrightarrow> resolves_only (await m f) P"
  by (auto simp add: resolves_only_def await_def split: prod.splits sum.splits)
    (metis fst_conv)

lemma resolves_only_any: "resolves_only m (\<lambda>x. True)"
  by (simp add: resolves_only_def)

lemma resolves_only_await_any:
  "(\<And>x. resolves_only (f x) P) \<Longrightarrow> resolves_only (await m f) P"
  by (rule resolves_only_await [OF resolves_only_any]) simp

lemma resolves_only_if:
  "resolves_only a P \<Longrightarrow> resolves_only b P \<Longrightarrow> resolves_only (if c then a else b) P"
  by simp

lemma resolves_only_reject: "resolves_only (reject e) P"
  by (simp add: resolves_only_def reject_def)

lemma resolves_only_resolve: "P x \<Longrightarrow> resolves_only (resolve x) P"
  by (simp add: resolves_only_def resolve_def)

lemmas resolves_only_intros = resolves_only_await_any resolves_only_if resolves_only_reject
  resolves_only_resolve

lemma resolves_onlyD: "resolves_only m P \<Longrightarrow> fst (m w) = Inr r \<Longrightarrow> P r"
  by (auto simp add: resolves_only_def)

lemma refreshToken_result:
  "resolves_only (refreshToken en tok) (\<lambda>r. \<exists>t. r = JObj [(''accessToken'', t)])"
  unfolding refreshToken_def
  by (intro resolves_only_intros) simp

lemma refresh_try_result:
  "resolves_only (refresh_try en req)
     (\<lambda>r. status r = 200 \<longrightarrow> keys_of (own_prop (json r) ''data'') = [''accessToken''])"
  unfolding refresh_try_def Let_def
  by (intro resolves_only_intros) (simp_all add: keys_of_def)

lemma controller_refresh_ok:
  assumes "status (fst (controller_refresh en req w)) = 200"
  shows "keys_of (own_prop (json (fst (controller_refresh en req w))) ''data'') = [''accessToken'']"
proof (cases "refresh_try en req w")
  case (Pair r w')
  show ?thesis
  proof (cases r)
    case (Inl error)
    with Pair assms show ?thesis
      by (simp add: controller_refresh_def split: if_splits)
  next
    case (Inr res)
    with Pair have "fst (refresh_try en req w) = Inr res" by simp
    from resolves_onlyD [OF refresh_try_result this] Pair Inr assms show ?thesis
      by (simp add: controller_refresh_def)
  qed
qed

text \<open>
  C4. For every refresh call whose token verifies to a payload of type \<open>refresh\<close>, the
  service looks the user up by the \<open>userId\<close> of the payload (the one call of the run, the
  store unchanged): it rejects with \<open>User not found\<close> when the lookup finds nothing, with
  \<open>Account is inactive\<close> when the found user's \<open>is_active\<close> is falsy, and otherwise
  resolves with the token that results from signing, with the access secret and expiry,
  the payload whose \<open>userId\<close>, \<open>username\<close>, \<open>email\<close>, \<open>roleId\<close>, \<open>roleName\<close> and
  \<open>municipalityId\<close> are \<open>id\<close>, \<open>username\<close>, \<open>email\<close>, \<open>role_id\<close>, \<open>role_name\<close> and
  \<open>municipality_id\<close> of the found user and whose \<open>type\<close> is \<open>access\<close> (or rejects with the
  error of the signing). Two refresh tokens with the same \<open>userId\<close> give
  the same run, whatever else their payloads hold. Whenever the call resolves, the result
  has the one key \<open>accessToken\<close>, hence no refresh token; and so has \<open>data\<close> of every 200
  response of the refresh handler.
\<close>

theorem refresh_rereads_identity:
  "(verifyRefreshToken en tok = Inr decoded \<and> own_prop decoded ''type'' = JStr ''refresh''
     \<and> u = first_or_null (rows_findById (db w) (own_prop decoded ''userId'')) \<longrightarrow>
       snd (refreshToken en tok w) = record_call (FindById (own_prop decoded ''userId'')) w
     \<and> (\<not> truthy u \<longrightarrow> fst (refreshToken en tok w) = Inl (Error ''User not found''))
     \<and> (truthy u \<and> \<not> truthy (own_prop u ''is_active'') \<longrightarrow>
          fst (refreshToken en tok w) = Inl (Error ''Account is inactive''))
     \<and> (truthy u \<and> truthy (own_prop u ''is_active'') \<longrightarrow>
          fst (refreshToken en tok w)
            = (case jwt_sign (libs en)
                      (JObj [(''userId'', own_prop u ''id''),
                             (''username'', own_prop u ''username''),
                             (''email'', own_prop u ''email''),
                             (''roleId'', own_prop u ''role_id''),
                             (''roleName'', own_prop u ''role_name''),
                             (''municipalityId'', own_prop u ''municipality_id''),
                             (''type'', JStr ''access'')])
                      (accessSecret (authConfig en)) (accessExpiresIn (authConfig en)) of
                 Inl e \<Rightarrow> Inl e
               | Inr t \<Rightarrow> Inr (JObj [(''accessToken'', t)]))))
   \<and> (verifyRefreshToken en tok = Inr decoded \<and> own_prop decoded ''type'' = JStr ''refresh''
       \<and> verifyRefreshToken en tok' = Inr decoded' \<and> own_prop decoded' ''type'' = JStr ''refresh''
       \<and> own_prop decoded ''userId'' = own_prop decoded' ''userId'' \<longrightarrow>
         refreshToken en tok w = refreshToken en tok' w)
   \<and> (fst (refreshToken en tok w) = Inr result \<longrightarrow>
         keys_of result = [''accessToken''] \<and> \<not> has_key result ''refreshToken'')
   \<and> (status (fst (controller_refresh en req w)) = 200 \<longrightarrow>
         keys_of (own_prop (json (fst (controller_refresh en req w))) ''data'')
           = [''accessToken''])"
proof (intro conjI impI)
  assume "fst (refreshToken en tok w) = Inr result"
  from resolves_onlyD [OF refreshToken_result this]
  show "keys_of result = [''accessToken'']" and "\<not> has_key result ''refreshToken''"
    by (auto simp add: keys_of_def has_key_def)
next
  assume "status (fst (controller_refresh en req w)) = 200"
  then show "keys_of (own_prop (json (fst (controller_refresh en req w))) ''data'')
           = [''accessToken'']"
    by (rule controller_refresh_ok)
qed (auto simp add: refreshToken_run Let_def generateAccessToken_def access_payload_def
      nullish_def)

text \<open>
  C10. For every register call that passes the two existence checks and whose password
  is hashed, one row is added to \<open>users\<close>, and its \<open>role_id\<close> is the supplied \<open>roleId\<close>
  when that is truthy and 5 otherwise: 5 for an absent or \<open>undefined\<close> \<open>roleId\<close>, for
  \<open>null\<close>, for \<open>false\<close>, for the empty string and also for the number 0.
\<close>

theorem register_default_role:
  "\<not> nullish userData
   \<and> rows_emailExists (db w) (own_prop userData ''email'') = []
   \<and> rows_usernameExists (db w) (own_prop userData ''username'') = []
   \<and> bcrypt_hash (libs en) (own_prop userData ''password'') (saltRounds (authConfig en)) = Inr h
   \<longrightarrow>
     map u_role_id (users (db (snd (register en userData w))))
       = map u_role_id (users (db w))
           @ [if truthy (own_prop userData ''roleId'') then own_prop userData ''roleId''
              else JNum 5]
   \<and> (own_prop userData ''roleId'' \<in> {JUndefined, JNull, JBool False, JNum 0, JStr []} \<longrightarrow>
        last (map u_role_id (users (db (snd (register en userData w))))) = JNum 5)
   \<and> (truthy (own_prop userData ''roleId'') \<longrightarrow>
        last (map u_role_id (users (db (snd (register en userData w)))))
          = own_prop userData ''roleId'')"
proof (intro impI)
  let ?r = "own_prop userData ''roleId''"
  assume "\<not> nullish userData
   \<and> rows_emailExists (db w) (own_prop userData ''email'') = []
   \<and> rows_usernameExists (db w) (own_prop userData ''username'') = []
   \<and> bcrypt_hash (libs en) (own_prop userData ''password'') (saltRounds (authConfig en)) = Inr h"
  then have persisted: "map u_role_id (users (db (snd (register en userData w))))
          = map u_role_id (users (db w)) @ [js_or ?r (JNum 5)]"
    using register_persists [of userData w en h] by blast
  have falsy: "?r \<in> {JUndefined, JNull, JBool False, JNum 0, JStr []} \<Longrightarrow> \<not> truthy ?r"
    using falsy_values [of ?r] by blast
  show "map u_role_id (users (db (snd (register en userData w))))
       = map u_role_id (users (db w)) @ [if truthy ?r then ?r else JNum 5]
   \<and> (?r \<in> {JUndefined, JNull, JBool False, JNum 0, JStr []} \<longrightarrow>
        last (map u_role_id (users (db (snd (register en userData w))))) = JNum 5)
   \<and> (truthy ?r \<longrightarrow>
        last (map u_role_id (users (db (snd (register en userData w))))) = ?r)"
    unfolding persisted using falsy by (simp add: js_or_def)
qed



lemma register_result:
  "resolves_only (register en userData) (\<lambda>r. \<not> has_key (own_prop r ''user'') ''password_hash'')"
  unfolding register_def Let_def
  by (intro resolves_only_intros) (simp add: sanitizeUser_no_hash)

lemma login_result:
  "resolves_only (login en l p) (\<lambda>r. \<not> has_key (own_prop r ''user'') ''password_hash'')"
  unfolding login_def
  by (intro resolves_only_intros) (simp add: sanitizeUser_no_hash)

lemma login_try_result:
  "resolves_only (login_try en req) (\<lambda>r. \<not> has_key (response_user r) ''password_hash'')"
  unfolding login_try_def Let_def
  by (intro resolves_only_if resolves_only_reject resolves_only_resolve
        resolves_only_await [OF login_result])
    (simp_all add: response_user_def has_key_def)

lemma controller_login_no_hash:
  "\<not> has_key (response_user (fst (controller_login en req w))) ''password_hash''"
proof (cases "login_try en req w")
  case (Pair r w')
  show ?thesis
  proof (cases r)
    case (Inl error)
    with Pair show ?thesis
      by (simp add: controller_login_def response_user_def has_key_def)
  next
    case (Inr res)
    with Pair have "fst (login_try en req w) = Inr res" by simp
    from resolves_onlyD [OF login_try_result this] Pair Inr show ?thesis
      by (simp add: controller_login_def)
  qed
qed

lemma me_try_result:
  "resolves_only (me_try req) (\<lambda>r. \<not> has_key (response_user r) ''password_hash'')"
  unfolding me_try_def Let_def
  by (intro resolves_only_intros)
    (simp_all add: response_user_def sanitizeUser_no_hash, simp add: has_key_def)

lemma controller_me_no_hash:
  "\<not> has_key (response_user (fst (controller_me req w))) ''password_hash''"
proof (cases "me_try req w")
  case (Pair r w')
  show ?thesis
  proof (cases r)
    case (Inl error)
    with Pair show ?thesis
      by (simp add: controller_me_def response_user_def has_key_def)
  next
    case (Inr res)
    with Pair have "fst (me_try req w) = Inr res" by simp
    from resolves_onlyD [OF me_try_result this] Pair Inr show ?thesis
      by (simp add: controller_me_def)
  qed
qed

lemma register_try_result:
  "resolves_only (register_try en req) (\<lambda>r. \<not> has_key (response_user r) ''password_hash'')"
  unfolding register_try_def Let_def
  by (intro resolves_only_if resolves_only_reject resolves_only_resolve
        resolves_only_await [OF register_result])
    (simp_all add: response_user_def has_key_def)

lemma controller_register_no_hash:
  "\<not> has_key (response_user (fst (controller_register en req w))) ''password_hash''"
proof (cases "register_try en req w")
  case (Pair r w')
  show ?thesis
  proof (cases r)
    case (Inl error)
    with Pair show ?thesis
      by (simp add: controller_register_def response_user_def has_key_def)
  next
    case (Inr res)
    with Pair have "fst (register_try en req w) = Inr res" by simp
    from resolves_onlyD [OF register_try_result this] Pair Inr show ?thesis
      by (simp add: controller_register_def)
  qed
qed

lemma authenticate_attaches:
  assumes "snd (authenticate en req) = CallNext"
  shows "keys_of (req_user (fst (authenticate en req)))
          = [''userId'', ''username'', ''email'', ''roleId'', ''roleName'', ''municipalityId'']"
  using assms
  by (auto simp add: authenticate_def authenticate_try_def bindE_def keys_of_def Let_def
      split: option.splits sum.splits if_splits)

text \<open>
  C6. The \<open>user\<close> of every result of \<open>register\<close> and of \<open>login\<close>, and \<open>data.user\<close> of every
  response of the register, login and me handlers, has no \<open>password_hash\<close> property; and whenever
  the authentication gate calls the next handler, the identity it attached has exactly
  the six keys \<open>userId\<close>, \<open>username\<close>, \<open>email\<close>, \<open>roleId\<close>, \<open>roleName\<close>,
  \<open>municipalityId\<close>, hence no \<open>password_hash\<close>.
\<close>

theorem no_password_hash_outward:
  "(fst (register en userData w) = Inr result \<longrightarrow>
      \<not> has_key (own_prop result ''user'') ''password_hash'')
   \<and> (fst (login en l p w) = Inr result' \<longrightarrow>
      \<not> has_key (own_prop result' ''user'') ''password_hash'')
   \<and> \<not> has_key (response_user (fst (controller_register en req w))) ''password_hash''
   \<and> \<not> has_key (response_user (fst (controller_login en req w))) ''password_hash''
   \<and> \<not> has_key (response_user (fst (controller_me req w))) ''password_hash''
   \<and> (snd (authenticate en req) = CallNext \<longrightarrow>
        keys_of (req_user (fst (authenticate en req)))
          = [''userId'', ''username'', ''email'', ''roleId'', ''roleName'', ''municipalityId'']
      \<and> \<not> has_key (req_user (fst (authenticate en req))) ''password_hash'')"
proof (intro conjI impI)
  assume "snd (authenticate en req) = CallNext"
  from authenticate_attaches [OF this]
  show "keys_of (req_user (fst (authenticate en req)))
          = [''userId'', ''username'', ''email'', ''roleId'', ''roleName'', ''municipalityId'']"
    and "\<not> has_key (req_user (fst (authenticate en req))) ''password_hash''"
    by (auto simp add: keys_of_def has_key_def split: jsval.splits)
qed (use resolves_onlyD [OF register_result] resolves_onlyD [OF login_result]
      controller_register_no_hash controller_login_no_hash controller_me_no_hash in blast)+

lemma authenticate_wrong_kind:
  assumes "req_authorization req = Some (''Bearer '' @ t)"
    and "verifyAccessToken en (JStr t) = Inr decoded"
    and "own_prop decoded ''type'' \<noteq> JStr ''access''"
  shows "snd (authenticate en req) \<noteq> CallNext" and "fst (authenticate en req) = req"
    and "\<not> nullish decoded \<Longrightarrow> authenticate en req = (req, Respond \<lparr>status = 401, json = JObj
                [(''status'', JStr ''error''), (''message'', JStr ''Invalid token type''),
                 (''code'', JStr ''INVALID_TOKEN_TYPE'')]\<rparr>)"
  using assms
  by (auto simp add: authenticate_def authenticate_try_def bindE_def get_prop_def)

lemma authenticate_rejected_verify:
  assumes "req_authorization req = Some (''Bearer '' @ t)"
    and "verifyAccessToken en (JStr t) = Inl e"
  shows "snd (authenticate en req) \<noteq> CallNext" and "fst (authenticate en req) = req"
  using assms
  by (auto simp add: authenticate_def authenticate_try_def bindE_def get_prop_def)

lemma refreshToken_wrong_kind:
  assumes "verifyRefreshToken en tok = Inr decoded"
    and "own_prop decoded ''type'' \<noteq> JStr ''refresh''"
  shows "isl (fst (refreshToken en tok w))" and "snd (refreshToken en tok w) = w"
    and "\<not> nullish decoded \<Longrightarrow> fst (refreshToken en tok w) = Inl (Error ''Invalid token type'')"
  using assms
  by (auto simp add: refreshToken_def await_sync get_prop_def reject_def)

lemma refreshToken_rejected_verify:
  assumes "verifyRefreshToken en tok = Inl e"
  shows "isl (fst (refreshToken en tok w))" and "snd (refreshToken en tok w) = w"
  using assms
  by (auto simp add: refreshToken_def await_sync)

lemma issued_refresh_decodes:
  assumes "keeps_type (libs en)" and "generateRefreshToken en u = Inr tok"
    and "jwt_verify (libs en) tok s = Inr decoded"
  shows "own_prop decoded ''type'' = JStr ''refresh''"
proof -
  from assms(2) have "jwt_sign (libs en) (refresh_payload u)
      (refreshSecret (authConfig en)) (refreshExpiresIn (authConfig en)) = Inr tok"
    by (simp add: generateRefreshToken_def split: if_splits)
  with assms(1,3) have "own_prop decoded ''type'' = own_prop (refresh_payload u) ''type''"
    unfolding keeps_type_def by blast
  then show ?thesis by (simp add: refresh_payload_def)
qed

lemma issued_access_decodes:
  assumes "keeps_type (libs en)" and "generateAccessToken en u = Inr tok"
    and "jwt_verify (libs en) tok s = Inr decoded"
  shows "own_prop decoded ''type'' = JStr ''access''"
proof -
  from assms(2) have "jwt_sign (libs en) (access_payload u)
      (accessSecret (authConfig en)) (accessExpiresIn (authConfig en)) = Inr tok"
    by (simp add: generateAccessToken_def split: if_splits)
  with assms(1,3) have "own_prop decoded ''type'' = own_prop (access_payload u) ''type''"
    unfolding keeps_type_def by blast
  then show ?thesis by (simp add: access_payload_def)
qed

lemma refresh_token_at_gate:
  assumes "keeps_type (libs en)" and "generateRefreshToken en u = Inr (JStr t)"
    and "req_authorization req = Some (''Bearer '' @ t)"
  shows "snd (authenticate en req) \<noteq> CallNext \<and> fst (authenticate en req) = req"
proof (cases "verifyAccessToken en (JStr t)")
  case (Inl e)
  from authenticate_rejected_verify [OF assms(3) Inl] show ?thesis by simp
next
  case (Inr decoded)
  then have "own_prop decoded ''type'' = JStr ''refresh''"
    using issued_refresh_decodes [OF assms(1,2)] by (simp add: verifyAccessToken_def)
  then have "own_prop decoded ''type'' \<noteq> JStr ''access''" by simp
  from authenticate_wrong_kind(1,2) [OF assms(3) Inr this] show ?thesis by simp
qed

lemma access_token_at_refresh:
  assumes "keeps_type (libs en)" and "generateAccessToken en u = Inr tok"
  shows "isl (fst (refreshToken en tok w)) \<and> snd (refreshToken en tok w) = w"
proof (cases "verifyRefreshToken en tok")
  case (Inl e)
  from refreshToken_rejected_verify [OF Inl] show ?thesis by simp
next
  case (Inr decoded)
  then have "own_prop decoded ''type'' = JStr ''access''"
    using issued_access_decodes [OF assms(1,2)] by (simp add: verifyRefreshToken_def)
  then have "own_prop decoded ''type'' \<noteq> JStr ''refresh''" by simp
  from refreshToken_wrong_kind(1,2) [OF Inr this] show ?thesis by simp
qed

text \<open>
  C1. Whatever the two secrets are: when the bearer token verifies to a payload whose
  \<open>type\<close> is not \<open>access\<close>, the authentication gate does not call the next handler and
  leaves the request as it was, answering 401 \<open>INVALID_TOKEN_TYPE\<close>; when a token
  verifies to a payload whose \<open>type\<close> is not \<open>refresh\<close>, \<open>refreshToken\<close> rejects with
  \<open>Invalid token type\<close> before any lookup. Hence, with a token library that keeps the
  \<open>type\<close> it signed, a refresh token issued for any user is never accepted by the gate,
  and an access token issued for any user is never accepted by \<open>refreshToken\<close>.
\<close>

theorem token_kinds_not_interchangeable:
  "(req_authorization req = Some (''Bearer '' @ t)
      \<and> verifyAccessToken en (JStr t) = Inr decoded
      \<and> own_prop decoded ''type'' \<noteq> JStr ''access'' \<longrightarrow>
        snd (authenticate en req) \<noteq> CallNext \<and> fst (authenticate en req) = req
      \<and> (\<not> nullish decoded \<longrightarrow>
           authenticate en req = (req, Respond \<lparr>status = 401, json = JObj
                [(''status'', JStr ''error''), (''message'', JStr ''Invalid token type''),
                 (''code'', JStr ''INVALID_TOKEN_TYPE'')]\<rparr>)))
   \<and> (verifyRefreshToken en tok = Inr decoded'
      \<and> own_prop decoded' ''type'' \<noteq> JStr ''refresh'' \<longrightarrow>
        isl (fst (refreshToken en tok w)) \<and> snd (refreshToken en tok w) = w
      \<and> (\<not> nullish decoded' \<longrightarrow>
           fst (refreshToken en tok w) = Inl (Error ''Invalid token type'')))
   \<and> (keeps_type (libs en) \<and> generateRefreshToken en u = Inr (JStr t)
      \<and> req_authorization req = Some (''Bearer '' @ t) \<longrightarrow>
        snd (authenticate en req) \<noteq> CallNext \<and> fst (authenticate en req) = req)
   \<and> (keeps_type (libs en) \<and> generateAccessToken en u = Inr tok \<longrightarrow>
        isl (fst (refreshToken en tok w)) \<and> snd (refreshToken en tok w) = w)"
  using authenticate_wrong_kind [of req t en decoded] refreshToken_wrong_kind [of en tok decoded' w]
    refresh_token_at_gate [of en u t req] access_token_at_refresh [of en u tok w]
  by blast

lemma demo_keeps_type: "keeps_type demo_libs"
  unfolding keeps_type_def demo_libs_def
  by (auto simp add: demo_sign_def demo_verify_def split: jsval.splits if_splits)


lemmas demo_run_defs = async_defs repository_defs store_defs demo_store_defs demo_defs
  hashPassword_def comparePassword_def create_def insert_user_def returning_def
  generateAccessToken_def generateRefreshToken_def access_payload_def refresh_payload_def
  verifyAccessToken_def verifyRefreshToken_def get_prop_def nullish_def sanitizeUser_def
  record_call_def Error_def Let_def

theorem token_kinds_not_interchangeable_witness:
  "accessSecret (authConfig demo_env) = refreshSecret (authConfig demo_env)
   \<and> generateRefreshToken demo_env (JObj [(''id'', JNum 1)]) = Inr (JStr ''refresh.k'')
   \<and> authenticate demo_env
        \<lparr>req_authorization = Some ''Bearer refresh.k'', req_body = JNull, req_user = JUndefined\<rparr>
      = (\<lparr>req_authorization = Some ''Bearer refresh.k'', req_body = JNull,
          req_user = JUndefined\<rparr>,
         Respond \<lparr>status = 401, json = JObj
                [(''status'', JStr ''error''), (''message'', JStr ''Invalid token type''),
                 (''code'', JStr ''INVALID_TOKEN_TYPE'')]\<rparr>)
   \<and> generateAccessToken demo_env (JObj [(''id'', JNum 1)]) = Inr (JStr ''access.k'')
   \<and> refreshToken demo_env (JStr ''access.k'') demo_world
      = (Inl (Error ''Invalid token type''), demo_world)"
proof -
  let ?req = "\<lparr>req_authorization = Some ''Bearer refresh.k'', req_body = JNull,
                req_user = JUndefined\<rparr>"
  let ?u = "JObj [(''id'', JNum 1)]"
  let ?r = "JObj [(''userId'', JNum 1), (''type'', JStr ''refresh''),
                  (''iat'', JNum 100), (''exp'', JNum 100000)]"
  let ?a = "JObj [(''userId'', JNum 1), (''username'', JStr ''alice''),
                  (''email'', JStr ''alice@example.org''), (''roleId'', JNum 1),
                  (''roleName'', JStr ''admin''), (''municipalityId'', JNull),
                  (''type'', JStr ''access''), (''iat'', JNum 100), (''exp'', JNum 1000)]"
  have same: "accessSecret (authConfig demo_env) = refreshSecret (authConfig demo_env)"
    by (simp add: demo_env_def)
  have gen_r: "generateRefreshToken demo_env ?u = Inr (JStr ''refresh.k'')"
    by (simp add: generateRefreshToken_def refresh_payload_def nullish_def demo_defs)
  have gen_a: "generateAccessToken demo_env ?u = Inr (JStr ''access.k'')"
    by (simp add: generateAccessToken_def access_payload_def nullish_def demo_defs)
  have h1: "req_authorization ?req = Some (''Bearer '' @ ''refresh.k'')
      \<and> verifyAccessToken demo_env (JStr ''refresh.k'') = Inr ?r
      \<and> own_prop ?r ''type'' \<noteq> JStr ''access''"
    by (simp add: verifyAccessToken_def demo_defs)
  have h2: "verifyRefreshToken demo_env (JStr ''access.k'') = Inr ?a
      \<and> own_prop ?a ''type'' \<noteq> JStr ''refresh''"
    by (simp add: verifyRefreshToken_def demo_defs)
  have keeps: "keeps_type (libs demo_env)"
    using demo_keeps_type by (simp add: demo_env_def)
  have h3: "keeps_type (libs demo_env) \<and> generateRefreshToken demo_env ?u = Inr (JStr ''refresh.k'')
      \<and> req_authorization ?req = Some (''Bearer '' @ ''refresh.k'')"
    using keeps gen_r by simp
  have h4: "keeps_type (libs demo_env) \<and> generateAccessToken demo_env ?u = Inr (JStr ''access.k'')"
    using keeps gen_a by simp
  note inst = token_kinds_not_interchangeable [where req = ?req and t = "''refresh.k''"
      and en = demo_env and decoded = ?r and tok = "JStr ''access.k''" and decoded' = ?a
      and w = demo_world and u = ?u]
  note gate = inst [THEN conjunct1, rule_format, OF h1]
  note service = inst [THEN conjunct2, THEN conjunct1, rule_format, OF h2]
  note gate_issued = inst [THEN conjunct2, THEN conjunct2, THEN conjunct1, rule_format, OF h3]
  note service_issued = inst [THEN conjunct2, THEN conjunct2, THEN conjunct2, rule_format, OF h4]
  have c1: "authenticate demo_env ?req = (?req, Respond \<lparr>status = 401, json = JObj
                [(''status'', JStr ''error''), (''message'', JStr ''Invalid token type''),
                 (''code'', JStr ''INVALID_TOKEN_TYPE'')]\<rparr>)"
    using gate gate_issued by (simp add: nullish_def)
  have c2: "refreshToken demo_env (JStr ''access.k'') demo_world
      = (Inl (Error ''Invalid token type''), demo_world)"
    using service service_issued by (simp add: nullish_def prod_eq_iff)
  from same gen_r gen_a c1 c2 show ?thesis by simp
qed

theorem register_default_role_witness:
  "map u_role_id (users (db (snd (register demo_env
        (JObj [(''username'', JStr ''carol''), (''email'', JStr ''carol@example.org''),
               (''password'', JStr ''longenough''), (''roleId'', JNum 0)]) demo_world))))
     = [JNum 1, JNum 5, JNum 5]
   \<and> map u_role_id (users (db (snd (register demo_env
        (JObj [(''username'', JStr ''carol''), (''email'', JStr ''carol@example.org''),
               (''password'', JStr ''longenough'')]) demo_world))))
     = [JNum 1, JNum 5, JNum 5]
   \<and> map u_role_id (users (db (snd (register demo_env
        (JObj [(''username'', JStr ''carol''), (''email'', JStr ''carol@example.org''),
               (''password'', JStr ''longenough''), (''roleId'', JNum 2)]) demo_world))))
     = [JNum 1, JNum 5, JNum 2]"
proof -
  let ?zero = "JObj [(''username'', JStr ''carol''), (''email'', JStr ''carol@example.org''),
               (''password'', JStr ''longenough''), (''roleId'', JNum 0)]"
  let ?absent = "JObj [(''username'', JStr ''carol''), (''email'', JStr ''carol@example.org''),
               (''password'', JStr ''longenough'')]"
  let ?two = "JObj [(''username'', JStr ''carol''), (''email'', JStr ''carol@example.org''),
               (''password'', JStr ''longenough''), (''roleId'', JNum 2)]"
  have hyp: "\<not> nullish d
     \<and> rows_emailExists (db demo_world) (own_prop d ''email'') = []
     \<and> rows_usernameExists (db demo_world) (own_prop d ''username'') = []
     \<and> bcrypt_hash (libs demo_env) (own_prop d ''password'') (saltRounds (authConfig demo_env))
         = Inr (JStr ''$2b$longenough'')"
    if "d = ?zero \<or> d = ?absent \<or> d = ?two" for d
    using that by (auto simp add: nullish_def store_defs demo_store_defs demo_defs)
  have before: "map u_role_id (users (db demo_world)) = [JNum 1, JNum 5]"
    by (simp add: demo_store_defs)
  note c0 = register_default_role [where userData = ?zero and w = demo_world and en = demo_env
      and h = "JStr ''$2b$longenough''", rule_format, OF hyp, THEN conjunct1]
  note ca = register_default_role [where userData = ?absent and w = demo_world and en = demo_env
      and h = "JStr ''$2b$longenough''", rule_format, OF hyp, THEN conjunct1]
  note c2 = register_default_role [where userData = ?two and w = demo_world and en = demo_env
      and h = "JStr ''$2b$longenough''", rule_format, OF hyp, THEN conjunct1]
  show ?thesis
    using c0 ca c2 by (simp add: before)
qed


lemma demo_refresh_handler:
  "fst (controller_refresh demo_env
      \<lparr>req_authorization = None, req_body = JObj [(''refreshToken'', JStr ''refresh.k'')],
        req_user = JUndefined\<rparr> demo_world)
   = \<lparr>status = 200, json = JObj
              [(''status'', JStr ''success''),
               (''message'', JStr ''Token refreshed successfully''),
               (''data'', JObj [(''accessToken'', JStr ''access.k'')])]\<rparr>"
  by (simp add: controller_refresh_def refresh_try_def refreshToken_def demo_run_defs)

theorem refresh_rereads_identity_witness:
  "fst (refreshToken demo_env (JStr ''refresh.k'') demo_world)
     = Inr (JObj [(''accessToken'', JStr ''access.k'')])
   \<and> fst (refreshToken demo_env (JStr ''refresh.k'') demo_world_without_alice)
     = Inl (Error ''User not found'')
   \<and> fst (refreshToken demo_env (JStr ''refresh.k'') demo_world_alice_inactive)
     = Inl (Error ''Account is inactive'')
   \<and> snd (refreshToken demo_env (JStr ''refresh.k'') demo_world)
     = \<lparr>db = demo_db, calls = [FindById (JNum 1)]\<rparr>
   \<and> fst (controller_refresh demo_env
        \<lparr>req_authorization = None, req_body = JObj [(''refreshToken'', JStr ''refresh.k'')],
          req_user = JUndefined\<rparr> demo_world)
     = \<lparr>status = 200, json = JObj
              [(''status'', JStr ''success''),
               (''message'', JStr ''Token refreshed successfully''),
               (''data'', JObj [(''accessToken'', JStr ''access.k'')])]\<rparr>
   \<and> fst (refreshToken demo_open_env (JStr ''stale'') demo_world)
     = Inr (JObj [(''accessToken'', JStr ''access|1|alice|alice@example.org|1|admin|null'')])
   \<and> fst (refreshToken demo_open_env (JStr ''stale'') demo_world_alice_viewer)
     = Inr (JObj [(''accessToken'', JStr ''access|1|alice|alice@example.org|5|viewer|null'')])"
proof -
  let ?req = "\<lparr>req_authorization = None,
                req_body = JObj [(''refreshToken'', JStr ''refresh.k'')],
                req_user = JUndefined\<rparr>"
  let ?stale = "JObj
        [(''userId'', JNum 1), (''username'', JStr ''alice-then''), (''roleId'', JNum 1),
         (''roleName'', JStr ''admin''), (''type'', JStr ''refresh''),
         (''iat'', JNum 100), (''exp'', JNum 100000)]"
  let ?v = "\<lambda>w. first_or_null (rows_findById (db w) (own_prop ?stale ''userId''))"
  let ?tok = "JStr ''refresh.k''"
  let ?d = "JObj [(''userId'', JNum 1), (''type'', JStr ''refresh''),
                  (''iat'', JNum 100), (''exp'', JNum 100000)]"
  let ?u = "\<lambda>w. first_or_null (rows_findById (db w) (own_prop ?d ''userId''))"
  have hyp: "verifyRefreshToken demo_env ?tok = Inr ?d \<and> own_prop ?d ''type'' = JStr ''refresh''
      \<and> ?u w = first_or_null (rows_findById (db w) (own_prop ?d ''userId''))" for w
    by (simp add: verifyRefreshToken_def demo_defs)
  have same: "verifyRefreshToken demo_env ?tok = Inr ?d \<and> own_prop ?d ''type'' = JStr ''refresh''
      \<and> verifyRefreshToken demo_env ?tok = Inr ?d \<and> own_prop ?d ''type'' = JStr ''refresh''
      \<and> own_prop ?d ''userId'' = own_prop ?d ''userId''"
    by (simp add: verifyRefreshToken_def demo_defs)
  have found: "truthy (?u demo_world) \<and> truthy (own_prop (?u demo_world) ''is_active'')"
    by (simp add: store_defs demo_store_defs)
  have gone: "\<not> truthy (?u demo_world_without_alice)"
    by (simp add: store_defs demo_store_defs demo_world_without_alice_def)
  have off: "truthy (?u demo_world_alice_inactive)
      \<and> \<not> truthy (own_prop (?u demo_world_alice_inactive) ''is_active'')"
    by (simp add: store_defs demo_store_defs demo_world_alice_inactive_def)
  have hyp_open: "verifyRefreshToken demo_open_env (JStr ''stale'') = Inr ?stale
      \<and> own_prop ?stale ''type'' = JStr ''refresh''
      \<and> ?v w = first_or_null (rows_findById (db w) (own_prop ?stale ''userId''))" for w
    by (simp add: verifyRefreshToken_def demo_open_env_def demo_open_verify_def)
  have found1: "truthy (?v demo_world) \<and> truthy (own_prop (?v demo_world) ''is_active'')"
    by (simp add: store_defs demo_store_defs)
  have found2: "truthy (?v demo_world_alice_viewer)
      \<and> truthy (own_prop (?v demo_world_alice_viewer) ''is_active'')"
    by (simp add: store_defs demo_store_defs demo_world_alice_viewer_def)
  note open_inst = refresh_rereads_identity [where en = demo_open_env
      and tok = "JStr ''stale''" and decoded = ?stale]
  note run1 = open_inst [where u = "?v demo_world" and w = demo_world,
      THEN conjunct1, rule_format, OF hyp_open,
      THEN conjunct2, THEN conjunct2, THEN conjunct2, rule_format, OF found1]
  note run2 = open_inst [where u = "?v demo_world_alice_viewer"
      and w = demo_world_alice_viewer, THEN conjunct1, rule_format, OF hyp_open,
      THEN conjunct2, THEN conjunct2, THEN conjunct2, rule_format, OF found2]
  have "char_of (49::nat) = CHR ''1''" and "char_of (53::nat) = CHR ''5''"
    by code_simp+
  then have digits: "decimal (Suc 0) = ''1''" "decimal 5 = ''5''"
    by (simp_all add: decimal.simps)
  have o1: "fst (refreshToken demo_open_env (JStr ''stale'') demo_world)
     = Inr (JObj [(''accessToken'', JStr ''access|1|alice|alice@example.org|1|admin|null'')])"
    unfolding run1
    by (simp add: store_defs demo_store_defs demo_open_env_def demo_open_sign_def render_def
        digits)
  have o2: "fst (refreshToken demo_open_env (JStr ''stale'') demo_world_alice_viewer)
     = Inr (JObj [(''accessToken'', JStr ''access|1|alice|alice@example.org|5|viewer|null'')])"
    unfolding run2
    by (simp add: store_defs demo_store_defs demo_world_alice_viewer_def demo_open_env_def
        demo_open_sign_def render_def digits)
  note inst = refresh_rereads_identity [where en = demo_env and tok = ?tok and decoded = ?d
      and tok' = ?tok and decoded' = ?d]
  note run = inst [where w = demo_world and u = "?u demo_world",
      THEN conjunct1, rule_format, OF hyp]
  note run_gone = inst [where w = demo_world_without_alice
      and u = "?u demo_world_without_alice", THEN conjunct1, rule_format, OF hyp]
  note run_off = inst [where w = demo_world_alice_inactive
      and u = "?u demo_world_alice_inactive", THEN conjunct1, rule_format, OF hyp]
  note indep = inst [where w = demo_world, THEN conjunct2, THEN conjunct1, rule_format, OF same]
  have c1: "fst (refreshToken demo_env ?tok demo_world)
     = Inr (JObj [(''accessToken'', JStr ''access.k'')])"
    unfolding run [THEN conjunct2, THEN conjunct2, THEN conjunct2, rule_format, OF found]
    by (simp add: store_defs demo_store_defs demo_defs)
  have c2: "fst (refreshToken demo_env ?tok demo_world_without_alice)
     = Inl (Error ''User not found'')"
    using run_gone [THEN conjunct2, THEN conjunct1, rule_format, OF gone] .
  have c3: "fst (refreshToken demo_env ?tok demo_world_alice_inactive)
     = Inl (Error ''Account is inactive'')"
    using run_off [THEN conjunct2, THEN conjunct2, THEN conjunct1, rule_format, OF off] .
  have c4: "snd (refreshToken demo_env ?tok demo_world)
     = \<lparr>db = demo_db, calls = [FindById (JNum 1)]\<rparr>"
    using run [THEN conjunct1] by (simp add: record_call_def demo_world_def)
  note keys = inst [where w = demo_world
      and result = "JObj [(''accessToken'', JStr ''access.k'')]",
      THEN conjunct2, THEN conjunct2, THEN conjunct1, rule_format, OF c1]
  have ok: "status (fst (controller_refresh demo_env ?req demo_world)) = 200"
    by (simp add: demo_refresh_handler)
  note outward = inst [where w = demo_world and req = ?req,
      THEN conjunct2, THEN conjunct2, THEN conjunct2, rule_format, OF ok]
  from c1 c2 c3 c4 o1 o2 indep keys outward demo_refresh_handler show ?thesis by simp
qed

lemma demo_login_alice:
  "fst (login demo_env (JStr ''alice'') (JStr ''wonderland'') demo_world) = Inr (JObj
     [(''user'', JObj
        [(''id'', JNum 1), (''username'', JStr ''alice''), (''email'', JStr ''alice@example.org''),
         (''role_id'', JNum 1), (''municipality_id'', JNull),
         (''first_name'', JStr ''Alice''), (''last_name'', JNull), (''phone'', JNull),
         (''profile_image_url'', JNull), (''is_active'', JBool True),
         (''last_login'', JNull), (''email_verified'', JBool True),
         (''created_at'', JStr ''2024-01-01''), (''updated_at'', JStr ''2024-01-01''),
         (''role_name'', JStr ''admin''), (''permissions'', JObj [])]),
      (''accessToken'', JStr ''access.k''), (''refreshToken'', JStr ''refresh.k'')])"
  by (simp add: login_def updateLastLogin_def demo_run_defs)

lemma demo_register_carol:
  "fst (register demo_env
        (JObj [(''username'', JStr ''carol''), (''email'', JStr ''carol@example.org''),
               (''password'', JStr ''longenough'')]) demo_world) = Inr (JObj
     [(''user'', JObj
        [(''id'', JNum 3), (''username'', JStr ''carol''), (''email'', JStr ''carol@example.org''),
         (''role_id'', JNum 5), (''municipality_id'', JNull),
         (''first_name'', JNull), (''last_name'', JNull), (''phone'', JNull),
         (''profile_image_url'', JNull), (''is_active'', JBool True),
         (''last_login'', JNull), (''email_verified'', JBool False),
         (''created_at'', JStr ''2024-02-02''), (''updated_at'', JStr ''2024-02-02''),
         (''role_name'', JStr ''viewer''), (''permissions'', JObj [])]),
      (''accessToken'', JStr ''access.k''), (''refreshToken'', JStr ''refresh.k'')])"
  by (simp add: register_def demo_run_defs)


lemma demo_register_handler:
  "status (fst (controller_register demo_env
      \<lparr>req_authorization = None,
        req_body = JObj [(''username'', JStr ''carol''), (''email'', JStr '' carol@example.org ''),
               (''password'', JStr ''longenough'')],
        req_user = JUndefined\<rparr> demo_world)) = 201"
  by (simp add: controller_register_def register_try_def register_def demo_run_defs
      isValidEmail_def emailRegex_test_def js_whitespace_def upt_rec sanitizeInput_def trim_def
      isValidUsername_def usernameRegex_test_def username_char_def isValidPassword_def)

theorem no_password_hash_outward_witness:
  "has_key (login_lookup demo_db (JStr ''alice'')) ''password_hash''
   \<and> \<not> isl (fst (login demo_env (JStr ''alice'') (JStr ''wonderland'') demo_world))
   \<and> \<not> has_key (own_prop (projr (fst (login demo_env (JStr ''alice'') (JStr ''wonderland'')
          demo_world))) ''user'') ''password_hash''
   \<and> \<not> isl (fst (register demo_env
        (JObj [(''username'', JStr ''carol''), (''email'', JStr ''carol@example.org''),
               (''password'', JStr ''longenough'')]) demo_world))
   \<and> \<not> has_key (own_prop (projr (fst (register demo_env
        (JObj [(''username'', JStr ''carol''), (''email'', JStr ''carol@example.org''),
               (''password'', JStr ''longenough'')]) demo_world))) ''user'') ''password_hash''
   \<and> snd (authenticate demo_env
        \<lparr>req_authorization = Some ''Bearer access.k'', req_body = JNull, req_user = JUndefined\<rparr>)
      = CallNext
   \<and> \<not> has_key (req_user (fst (authenticate demo_env
        \<lparr>req_authorization = Some ''Bearer access.k'', req_body = JNull,
          req_user = JUndefined\<rparr>))) ''password_hash''
   \<and> status (fst (controller_register demo_env
        \<lparr>req_authorization = None,
          req_body = JObj [(''username'', JStr ''carol''),
                           (''email'', JStr '' carol@example.org ''),
                           (''password'', JStr ''longenough'')],
          req_user = JUndefined\<rparr> demo_world)) = 201
   \<and> \<not> has_key (response_user (fst (controller_register demo_env
        \<lparr>req_authorization = None,
          req_body = JObj [(''username'', JStr ''carol''),
                           (''email'', JStr '' carol@example.org ''),
                           (''password'', JStr ''longenough'')],
          req_user = JUndefined\<rparr> demo_world))) ''password_hash''
   \<and> \<not> has_key (response_user (fst (controller_login demo_env
        \<lparr>req_authorization = None,
          req_body = JObj [(''login'', JStr ''alice''), (''password'', JStr ''wonderland'')],
          req_user = JUndefined\<rparr> demo_world))) ''password_hash''
   \<and> \<not> has_key (response_user (fst (controller_me
        \<lparr>req_authorization = Some ''Bearer access.k'', req_body = JNull,
          req_user = JObj [(''userId'', JNum 1)]\<rparr> demo_world))) ''password_hash''"
proof -
  let ?carol = "JObj [(''username'', JStr ''carol''), (''email'', JStr ''carol@example.org''),
               (''password'', JStr ''longenough'')]"
  let ?bearer = "\<lparr>req_authorization = Some ''Bearer access.k'', req_body = JNull,
                   req_user = JUndefined\<rparr>"
  let ?form = "\<lparr>req_authorization = None,
          req_body = JObj [(''login'', JStr ''alice''), (''password'', JStr ''wonderland'')],
          req_user = JUndefined\<rparr>"
  let ?me = "\<lparr>req_authorization = Some ''Bearer access.k'', req_body = JNull,
          req_user = JObj [(''userId'', JNum 1)]\<rparr>"
  let ?signup = "\<lparr>req_authorization = None,
          req_body = JObj [(''username'', JStr ''carol''),
                           (''email'', JStr '' carol@example.org ''),
                           (''password'', JStr ''longenough'')],
          req_user = JUndefined\<rparr>"
  let ?l = "fst (login demo_env (JStr ''alice'') (JStr ''wonderland'') demo_world)"
  let ?r = "fst (register demo_env ?carol demo_world)"
  have stored: "has_key (login_lookup demo_db (JStr ''alice'')) ''password_hash''"
    by (simp add: demo_lookup_alice has_key_def)
  have l: "\<not> isl ?l" by (simp add: demo_login_alice)
  then have hl: "?l = Inr (projr ?l)" by (cases ?l) simp_all
  have r: "\<not> isl ?r" by (simp add: demo_register_carol)
  then have hr: "?r = Inr (projr ?r)" by (cases ?r) simp_all
  have passed: "snd (authenticate demo_env ?bearer) = CallNext"
    by (simp add: authenticate_def authenticate_try_def bindE_def verifyAccessToken_def
        get_prop_def nullish_def demo_defs)
  note inst = no_password_hash_outward [where en = demo_env and w = demo_world
      and userData = ?carol and result = "projr ?r"
      and l = "JStr ''alice''" and p = "JStr ''wonderland''" and result' = "projr ?l"]
  note c_register = inst [where req = ?bearer, THEN conjunct1, rule_format, OF hr]
  note c_login = inst [where req = ?bearer, THEN conjunct2, THEN conjunct1, rule_format, OF hl]
  note c_signup = inst [where req = ?signup, THEN conjunct2, THEN conjunct2, THEN conjunct1]
  note c_form = inst [where req = ?form, THEN conjunct2, THEN conjunct2, THEN conjunct2,
      THEN conjunct1]
  note c_me = inst [where req = ?me, THEN conjunct2, THEN conjunct2, THEN conjunct2,
      THEN conjunct2, THEN conjunct1]
  note c_gate = inst [where req = ?bearer, THEN conjunct2, THEN conjunct2, THEN conjunct2,
      THEN conjunct2, THEN conjunct2, rule_format, OF passed, THEN conjunct2]
  from stored l r passed c_register c_login c_signup c_form c_me c_gate demo_register_handler
  show ?thesis
    by blast
qed

end
